theory Spec2Isabelle
  imports Complex_Main
begin

section \<open>Data model of app.js\<close>

text \<open>
  JavaScript numbers and GLSL floats are modelled as real numbers: the formulas of the
  program are taken exactly as written, and IEEE rounding is not part of the model.
  Writes to the DOM status element are not modelled.
\<close>

type_synonym gesture = string

definition GESTURES_NONE :: gesture where "GESTURES_NONE = ''none''"
definition GESTURES_FIST :: gesture where "GESTURES_FIST = ''fist''"
definition GESTURES_OPEN :: gesture where "GESTURES_OPEN = ''open''"
definition GESTURES_PEACE :: gesture where "GESTURES_PEACE = ''peace''"
definition GESTURES_METAL :: gesture where "GESTURES_METAL = ''metal''"

text \<open>A vector with three components; \<open>'a\<close> is \<open>real\<close> for the values of the JavaScript side.\<close>

record 'a vec3 =
  vx :: 'a
  vy :: 'a
  vz :: 'a

text \<open>One tracked hand point, as delivered by the hand tracker.\<close>

record landmark =
  lm_x :: real
  lm_y :: real
  lm_z :: real

text \<open>The global \<open>state\<close> object. A timer handle is a number; \<open>None\<close> is \<open>null\<close>.\<close>

record state =
  handPosition :: "real vec3"
  currentGesture :: gesture
  customText :: string
  isForcedShape :: bool
  forcedShapeTimer :: "nat option"
  time :: real
  particleCount :: nat

text \<open>The argument of the tracker callback; \<open>None\<close> is a missing \<open>multiHandLandmarks\<close>.\<close>

record results =
  multiHandLandmarks :: "landmark list list option"

datatype error = TypeError

section \<open>Gesture classifier\<close>

text \<open>
  \<open>landmarks[i]\<close>: an index outside the array reads \<open>undefined\<close> (here \<open>None\<close>), and
  reading a coordinate of \<open>undefined\<close> throws a TypeError.
\<close>

definition landmark_at :: "landmark list \<Rightarrow> nat \<Rightarrow> landmark option" where
  "landmark_at landmarks i = (if i < length landmarks then Some (landmarks ! i) else None)"

definition isFingerExtended :: "landmark list \<Rightarrow> nat \<Rightarrow> nat \<Rightarrow> error + bool" where
  "isFingerExtended landmarks tipIdx baseIdx =
     (case landmark_at landmarks tipIdx of
        None \<Rightarrow> Inl TypeError
      | Some tip \<Rightarrow>
         (case landmark_at landmarks baseIdx of
            None \<Rightarrow> Inl TypeError
          | Some base \<Rightarrow> Inr (lm_y tip < lm_y base - 0.05)))"

definition isThumbExtended :: "landmark list \<Rightarrow> error + bool" where
  "isThumbExtended landmarks =
     (case landmark_at landmarks 4 of
        None \<Rightarrow> Inl TypeError
      | Some tip \<Rightarrow>
         (case landmark_at landmarks 2 of
            None \<Rightarrow> Inl TypeError
          | Some base \<Rightarrow> Inr (\<bar>lm_x tip - lm_x base\<bar> > 0.05)))"

text \<open>The finger states of \<open>detectGesture\<close>, computed in the order of the object literal.\<close>

record fingers =
  thumb :: bool
  index :: bool
  middle :: bool
  ring :: bool
  pinky :: bool

definition finger_states :: "landmark list \<Rightarrow> error + fingers" where
  "finger_states landmarks =
     (case isThumbExtended landmarks of Inl e \<Rightarrow> Inl e | Inr t \<Rightarrow>
     (case isFingerExtended landmarks 8 5 of Inl e \<Rightarrow> Inl e | Inr i \<Rightarrow>
     (case isFingerExtended landmarks 12 9 of Inl e \<Rightarrow> Inl e | Inr m \<Rightarrow>
     (case isFingerExtended landmarks 16 13 of Inl e \<Rightarrow> Inl e | Inr r \<Rightarrow>
     (case isFingerExtended landmarks 20 17 of Inl e \<Rightarrow> Inl e | Inr p \<Rightarrow>
        Inr \<lparr>thumb = t, index = i, middle = m, ring = r, pinky = p\<rparr>)))))"

text \<open>The four rules of \<open>detectGesture\<close> in source order, then the fall-through.\<close>

definition classify :: "gesture \<Rightarrow> fingers \<Rightarrow> gesture" where
  "classify previous f =
     (if index f \<and> \<not> middle f \<and> \<not> ring f \<and> pinky f then GESTURES_METAL
      else if index f \<and> middle f \<and> \<not> ring f \<and> \<not> pinky f then GESTURES_PEACE
      else if \<not> index f \<and> \<not> middle f \<and> \<not> ring f \<and> \<not> pinky f then GESTURES_FIST
      else if index f \<and> middle f \<and> ring f \<and> pinky f then GESTURES_OPEN
      else previous)"

definition detectGesture :: "state \<Rightarrow> landmark list \<Rightarrow> error + gesture" where
  "detectGesture st landmarks =
     (case finger_states landmarks of
        Inl e \<Rightarrow> Inl e
      | Inr f \<Rightarrow> Inr (classify (currentGesture st) f))"

text \<open>
  \<open>onHandResults\<close>. A throw leaves the state as it was mutated up to that point, so the
  error carries that state.
\<close>

definition palm_anchor :: "landmark \<Rightarrow> landmark \<Rightarrow> real vec3" where
  "palm_anchor wrist middleBase =
     (let zAvg = (lm_z wrist + lm_z middleBase) / 2;
          zMapped = - zAvg
      in \<lparr>vx = (1 - (lm_x wrist + lm_x middleBase) / 2) * 2 - 1,
          vy = - ((lm_y wrist + lm_y middleBase) / 2 * 2 - 1),
          vz = max (- 1) (min 1 zMapped)\<rparr>)"

definition onHandResults :: "results \<Rightarrow> state \<Rightarrow> (error \<times> state) + state" where
  "onHandResults res st =
     (case multiHandLandmarks res of
        Some (landmarks # others) \<Rightarrow>
          (case landmark_at landmarks 0 of
             None \<Rightarrow> Inl (TypeError, st)
           | Some wrist \<Rightarrow>
              (case landmark_at landmarks 9 of
                 None \<Rightarrow> Inl (TypeError, st)
               | Some middleBase \<Rightarrow>
                  (let st1 = st\<lparr>handPosition := palm_anchor wrist middleBase\<rparr>
                   in if \<not> isForcedShape st1
                      then (case detectGesture st1 landmarks of
                              Inl e \<Rightarrow> Inl (e, st1)
                            | Inr g \<Rightarrow> Inr (st1\<lparr>currentGesture := g\<rparr>))
                      else Inr st1)))
      | _ \<Rightarrow>
          Inr (if \<not> isForcedShape st then st\<lparr>currentGesture := GESTURES_NONE\<rparr> else st))"

text \<open>The state that is left behind by a call, whether it returned or threw.\<close>

definition state_after :: "(error \<times> state) + state \<Rightarrow> state" where
  "state_after r = (case r of Inl (e, s) \<Rightarrow> s | Inr s \<Rightarrow> s)"

section \<open>Forced gesture and its timer\<close>

text \<open>
  The host's timer facility, as far as \<open>forceShape\<close> uses it: a clock in milliseconds, the
  next handle to give out (handles are positive numbers), and the timers that are scheduled
  and have neither fired nor been cleared. The only function ever scheduled is the arrow
  function inside \<open>forceShape\<close>.
\<close>

datatype callback = ResetForcedShape

record timer =
  handle :: nat
  due :: nat
  callback :: callback

record host =
  now :: nat
  nextHandle :: nat
  pending :: "timer list"

definition setTimeout :: "callback \<Rightarrow> nat \<Rightarrow> host \<Rightarrow> nat \<times> host" where
  "setTimeout cb delay h =
     (nextHandle h,
      h\<lparr>nextHandle := Suc (nextHandle h),
        pending := pending h @ [\<lparr>handle = nextHandle h, due = now h + delay, callback = cb\<rparr>]\<rparr>)"

definition clearTimeout :: "nat \<Rightarrow> host \<Rightarrow> host" where
  "clearTimeout tid h = h\<lparr>pending := filter (\<lambda>t. handle t \<noteq> tid) (pending h)\<rparr>"

text \<open>The body of the scheduled arrow function.\<close>

fun run_callback :: "callback \<Rightarrow> state \<Rightarrow> state" where
  "run_callback ResetForcedShape st = st\<lparr>isForcedShape := False, currentGesture := GESTURES_NONE\<rparr>"

record system =
  app :: state
  env :: host

text \<open>\<open>if (state.forcedShapeTimer)\<close>: \<open>null\<close> and the number 0 are falsy.\<close>

definition forceShape :: "gesture \<Rightarrow> system \<Rightarrow> system" where
  "forceShape shape sys =
     (let st1 = (app sys)\<lparr>currentGesture := shape, isForcedShape := True\<rparr>;
          h1 = (case forcedShapeTimer st1 of
                  None \<Rightarrow> env sys
                | Some tid \<Rightarrow> if tid \<noteq> 0 then clearTimeout tid (env sys) else env sys);
          (tid, h2) = setTimeout ResetForcedShape 5000 h1
      in \<lparr>app = st1\<lparr>forcedShapeTimer := Some tid\<rparr>, env = h2\<rparr>)"

text \<open>
  The clock moves on by \<open>d\<close> milliseconds: every pending timer that is due by then fires,
  earliest first, and leaves the pending list.
\<close>

definition advance :: "nat \<Rightarrow> system \<Rightarrow> system" where
  "advance d sys =
     (let t' = now (env sys) + d;
          ready = sort_key due (filter (\<lambda>t. due t \<le> t') (pending (env sys)));
          waiting = filter (\<lambda>t. \<not> due t \<le> t') (pending (env sys))
      in \<lparr>app = fold (\<lambda>t. run_callback (callback t)) ready (app sys),
          env = (env sys)\<lparr>now := t', pending := waiting\<rparr>\<rparr>)"

text \<open>What can happen to the running page: a menu forces a shape, the tracker delivers a
  frame, time passes.\<close>

datatype event = Force gesture | Hand results | Elapse nat

fun exec :: "event \<Rightarrow> system \<Rightarrow> system" where
  "exec (Force shape) sys = forceShape shape sys"
| "exec (Hand res) sys = sys\<lparr>app := state_after (onHandResults res (app sys))\<rparr>"
| "exec (Elapse d) sys = advance d sys"

definition run :: "event list \<Rightarrow> system \<Rightarrow> system" where
  "run evs sys = fold exec evs sys"

text \<open>The state object as the script creates it, for a window of the given width.\<close>

definition initial_state :: "nat \<Rightarrow> state" where
  "initial_state innerWidth =
     \<lparr>handPosition = \<lparr>vx = 0, vy = 0, vz = 0\<rparr>,
      currentGesture = ''none'',
      customText = ''I LOVE U'',
      isForcedShape = False,
      forcedShapeTimer = None,
      time = 0,
      particleCount = (if innerWidth < 768 then 2000 else 4000)\<rparr>"

definition initial_system :: "nat \<Rightarrow> system" where
  "initial_system innerWidth =
     \<lparr>app = initial_state innerWidth, env = \<lparr>now = 0, nextHandle = 1, pending = []\<rparr>\<rparr>"

inductive reachable :: "nat \<Rightarrow> system \<Rightarrow> bool" for innerWidth :: nat where
  reach_init: "reachable innerWidth (initial_system innerWidth)"
| reach_step: "reachable innerWidth sys \<Longrightarrow> reachable innerWidth (exec ev sys)"

text \<open>The elapsed time of a trace, and whether it contains a new override.\<close>

fun elapsed :: "event list \<Rightarrow> nat" where
  "elapsed [] = 0"
| "elapsed (Elapse d # evs) = d + elapsed evs"
| "elapsed (ev # evs) = elapsed evs"

fun is_force :: "event \<Rightarrow> bool" where
  "is_force (Force shape) = True"
| "is_force ev = False"

text \<open>
  Two conditions on the timer bookkeeping, used to state what holds in every reachable
  state and during an override that expires at \<open>deadline\<close>.
\<close>

definition timer_inv :: "system \<Rightarrow> bool" where
  "timer_inv sys =
     (0 < nextHandle (env sys) \<and>
      (case pending (env sys) of
         [] \<Rightarrow> \<not> isForcedShape (app sys)
       | [tm] \<Rightarrow> isForcedShape (app sys) \<and> forcedShapeTimer (app sys) = Some (handle tm)
                   \<and> handle tm \<noteq> 0
       | _ \<Rightarrow> False))"

definition override_active :: "gesture \<Rightarrow> nat \<Rightarrow> system \<Rightarrow> bool" where
  "override_active shape deadline sys =
     (currentGesture (app sys) = shape \<and> timer_inv sys \<and>
      (case pending (env sys) of [tm] \<Rightarrow> due tm = deadline | _ \<Rightarrow> False))"

text \<open>A sample tracker frame: a hand with the four fingers raised.\<close>

definition open_palm :: "landmark list" where
  "open_palm =
     (let p = \<lparr>lm_x = 0.5, lm_y = 0.5, lm_z = 0\<rparr>; q = \<lparr>lm_x = 0.5, lm_y = 0.2, lm_z = 0\<rparr>
      in [p, p, p, p, p, p, p, p, q, p, p, p, q, p, p, p, q, p, p, p, q])"

definition frame_with :: "landmark list \<Rightarrow> results" where
  "frame_with landmarks = \<lparr>multiHandLandmarks = Some [landmarks]\<rparr>"

section \<open>Particle vertex shader\<close>

text \<open>
  A GLSL float whose value the language leaves undefined is \<open>None\<close>. The only source of
  such a value in the shader is \<open>pow\<close>: its result is undefined for a negative base, and
  for base 0 with an exponent that is not positive.
\<close>

type_synonym glfloat = "real option"

definition glsl_pow :: "real \<Rightarrow> real \<Rightarrow> glfloat" where
  "glsl_pow x y = (if x < 0 \<or> (x = 0 \<and> y \<le> 0) then None else Some (x powr y))"

definition glsl_step :: "real \<Rightarrow> real \<Rightarrow> real" where
  "glsl_step edge x = (if x < edge then 0 else 1)"

definition mix :: "real \<Rightarrow> glfloat \<Rightarrow> real \<Rightarrow> glfloat" where
  "mix x y a = map_option (\<lambda>y'. x * (1 - a) + y' * a) y"

definition mix3 :: "real vec3 \<Rightarrow> glfloat vec3 \<Rightarrow> real \<Rightarrow> glfloat vec3" where
  "mix3 p q a = \<lparr>vx = mix (vx p) (vx q) a, vy = mix (vy p) (vy q) a, vz = mix (vz p) (vz q) a\<rparr>"

definition add3 :: "glfloat vec3 \<Rightarrow> real vec3 \<Rightarrow> glfloat vec3" where
  "add3 p d =
     \<lparr>vx = map_option (\<lambda>c. c + vx d) (vx p),
      vy = map_option (\<lambda>c. c + vy d) (vy p),
      vz = map_option (\<lambda>c. c + vz d) (vz p)\<rparr>"

definition defined3 :: "real \<Rightarrow> real \<Rightarrow> real \<Rightarrow> glfloat vec3" where
  "defined3 a b c = \<lparr>vx = Some a, vy = Some b, vz = Some c\<rparr>"

text \<open>The attribute \<open>random\<close> of a particle: \<open>random.x\<close> to \<open>random.w\<close>.\<close>

record vec4 =
  rx :: real
  ry :: real
  rz :: real
  rw :: real

text \<open>The branches of \<open>main\<close>, one per value of the uniform \<open>gesture\<close>.\<close>

definition fist_target :: "real \<Rightarrow> real \<Rightarrow> real \<Rightarrow> real vec3 \<Rightarrow> glfloat vec3" where
  "fist_target t r w hand =
     (let ringAngle = r * 6.28318 + t * 0.3;
          ringRadius = 120 + r * 80;
          isRing = glsl_step 0.3 w
      in if isRing > 0.5
         then defined3 (vx hand + cos ringAngle * ringRadius)
                       (vy hand + sin ringAngle * ringRadius * 0.2)
                       (vz hand + sin ringAngle * ringRadius * 0.5)
         else (let planetR = r * 60;
                   theta = w * 3.14159;
                   phi = r * 6.28318
               in defined3 (vx hand + planetR * sin theta * cos (phi + t * 0.5))
                           (vy hand + planetR * sin theta * sin (phi + t * 0.5))
                           (vz hand + planetR * cos theta)))"

definition open_target :: "real \<Rightarrow> real \<Rightarrow> real \<Rightarrow> real \<Rightarrow> real vec3 \<Rightarrow> glfloat vec3" where
  "open_target t r phase w hand =
     (let isCenter = glsl_step 0.3 w;
          sphereR = r * 50
      in if isCenter > 0.5
         then (let theta = r * 3.14159;
                   phi = w * 6.28318
               in defined3 (vx hand + sphereR * sin theta * cos phi)
                           (vy hand + sphereR * sin theta * sin phi)
                           (vz hand + sphereR * cos theta))
         else (let wanderR = 200 + r * 200;
                   angle = t * 0.2 + phase
               in defined3 (vx hand + cos angle * wanderR)
                           (vy hand + sin (angle * 1.3) * wanderR)
                           (vz hand + sin (t + r * 10) * 100)))"

definition peace_target :: "real \<Rightarrow> real \<Rightarrow> real \<Rightarrow> real vec3 \<Rightarrow> glfloat vec3" where
  "peace_target t r w hand =
     (let charIndex = of_int \<lfloor>r * 7\<rfloor>;
          charX = (charIndex - 3) * 40;
          yOffset = sin (r * 20 + t) * 5
      in defined3 (vx hand + charX + (w - 0.5) * 30)
                  (vy hand + yOffset + (r - 0.5) * 60)
                  (vz hand + sin (t * 2 + r * 10) * 20))"

definition metal_target :: "real \<Rightarrow> real \<Rightarrow> real vec3 \<Rightarrow> glfloat vec3" where
  "metal_target t r hand =
     (let heartT = r * 6.28318;
          beat = 1 + sin (t * 8) * 0.1;
          heartX = map_option (\<lambda>p. 16 * p) (glsl_pow (sin heartT) 3);
          heartY = 13 * cos heartT - 5 * cos (2 * heartT)
                   - 2 * cos (3 * heartT) - cos (4 * heartT);
          scale = 5 * beat
      in \<lparr>vx = map_option (\<lambda>hx. vx hand + hx * scale) heartX,
          vy = Some (vy hand - heartY * scale + 20),
          vz = Some (vz hand + sin (heartT * 3 + t) * 30)\<rparr>)"

definition none_target :: "real \<Rightarrow> real \<Rightarrow> real \<Rightarrow> real \<Rightarrow> real vec3 \<Rightarrow> glfloat vec3" where
  "none_target t r speed phase pos =
     defined3 (vx pos + sin (t * speed + phase) * 50)
              (vy pos + cos (t * speed * 0.7 + phase) * 50)
              (vz pos + sin (t * 0.3 + r * 10) * 30)"

text \<open>The vector added after the interpolation (\<open>pos += vec3(...)\<close>).\<close>

definition noise_movement :: "real \<Rightarrow> real \<Rightarrow> real vec3" where
  "noise_movement t r =
     \<lparr>vx = sin (t + r * 10) * 2,
      vy = cos (t + r * 10) * 2,
      vz = sin (t * 0.5 + r * 10) * 2\<rparr>"

record uniforms =
  u_time :: real
  u_handPos :: "real vec3"
  u_gesture :: int

record attributes =
  a_position :: "real vec3"
  a_random :: vec4

text \<open>The target and the blend factor chosen by the \<open>if\<close> chain of \<open>main\<close>.\<close>

definition shape_target :: "uniforms \<Rightarrow> attributes \<Rightarrow> glfloat vec3 \<times> real" where
  "shape_target u a =
     (let pos = a_position a;
          t = u_time u * 2;
          r = rx (a_random a);
          speed = ry (a_random a) * 0.5 + 0.5;
          phase = rz (a_random a) * 6.28318;
          hand = \<lparr>vx = vx (u_handPos u) * 500, vy = vy (u_handPos u) * 500,
                  vz = vz (u_handPos u) * 500\<rparr>
      in if u_gesture u = 1 then (fist_target t r (rw (a_random a)) hand, 0.95)
         else if u_gesture u = 2 then (open_target t r phase (rw (a_random a)) hand, 0.9)
         else if u_gesture u = 3 then (peace_target t r (rw (a_random a)) hand, 0.92)
         else if u_gesture u = 4 then (metal_target t r hand, 0.94)
         else (none_target t r speed phase pos, 0.02))"

text \<open>The value of \<open>pos\<close> that \<open>main\<close> hands to the model-view transformation.\<close>

definition vertex_main :: "uniforms \<Rightarrow> attributes \<Rightarrow> glfloat vec3" where
  "vertex_main u a =
     (let (target, blend) = shape_target u a;
          pos = mix3 (a_position a) target (blend * 0.1)
      in add3 pos (noise_movement (u_time u * 2) (rx (a_random a))))"

text \<open>\<open>gestureMap[state.currentGesture] || 0\<close> in \<open>animate\<close>.\<close>

definition gestureMap :: "gesture \<Rightarrow> int option" where
  "gestureMap = map_of [(''none'', 0), (''fist'', 1), (''open'', 2), (''peace'', 3), (''metal'', 4)]"

definition gesture_uniform :: "gesture \<Rightarrow> int" where
  "gesture_uniform g = (case gestureMap g of None \<Rightarrow> 0 | Some n \<Rightarrow> n)"

text \<open>The uniforms that \<open>animate\<close> passes to the shader for the current state.\<close>

definition frame_uniforms :: "state \<Rightarrow> uniforms" where
  "frame_uniforms st =
     \<lparr>u_time = time st, u_handPos = handPosition st,
      u_gesture = gesture_uniform (currentGesture st)\<rparr>"

text \<open>
  Two formulas in the words of the specification, to compare the shader with: the
  turbulence with \<open>(sin, cos, sin)\<close> of the one argument \<open>t + r0 * 10\<close>, and the
  y coordinate of the heart with the scaled curve value added to the anchor.
\<close>

definition spec_turbulence :: "real \<Rightarrow> real \<Rightarrow> real vec3" where
  "spec_turbulence t r0 =
     \<lparr>vx = sin (t + r0 * 10) * 2, vy = cos (t + r0 * 10) * 2, vz = sin (t + r0 * 10) * 2\<rparr>"


text \<open>A sample particle at the origin with all four random scalars 0, and the uniforms of
  frame 25 (\<open>time\<close> = 25 * 0.016 = 0.4) with the hand at the centre.\<close>

definition sample_particle :: attributes where
  "sample_particle =
     \<lparr>a_position = \<lparr>vx = 0, vy = 0, vz = 0\<rparr>, a_random = \<lparr>rx = 0, ry = 0, rz = 0, rw = 0\<rparr>\<rparr>"

definition particle_with :: "real \<Rightarrow> real \<Rightarrow> attributes" where
  "particle_with r0 r3 =
     \<lparr>a_position = \<lparr>vx = 0, vy = 0, vz = 0\<rparr>, a_random = \<lparr>rx = r0, ry = 0, rz = 0, rw = r3\<rparr>\<rparr>"

definition sample_uniforms :: "int \<Rightarrow> uniforms" where
  "sample_uniforms g = \<lparr>u_time = 0.4, u_handPos = \<lparr>vx = 0, vy = 0, vz = 0\<rparr>, u_gesture = g\<rparr>"

section \<open>Colour pass\<close>

text \<open>
  \<open>THREE.Color.setHSL\<close> belongs to the rendering library and is a parameter: it maps hue,
  saturation and lightness to the three colour channels. \<open>Math.random\<close> is a parameter
  too: \<open>rnd k\<close> is the value of its \<open>k\<close>-th call, and the number of calls made so far is
  threaded through. The colour buffer is a list of \<open>3 * count\<close> numbers; a write beyond
  the end of a typed array is ignored, as \<open>list_update\<close> does.
\<close>

type_synonym hsl_fun = "real \<Rightarrow> real \<Rightarrow> real \<Rightarrow> real \<times> real \<times> real"

definition hue_params :: "gesture \<Rightarrow> real \<times> real" where
  "hue_params g =
     (if g = ''fist'' then (0.08, 0.1)
      else if g = ''open'' then (0.4, 0.15)
      else if g = ''peace'' then (0.6, 0.2)
      else if g = ''metal'' then (0.95, 0.1)
      else (0.5, 0.1))"

definition updateInterval :: "nat \<Rightarrow> nat" where
  "updateInterval count = max 1 (count div 300)"

function color_loop ::
  "hsl_fun \<Rightarrow> (nat \<Rightarrow> real) \<Rightarrow> real \<Rightarrow> real \<Rightarrow> nat \<Rightarrow> nat \<Rightarrow> real list \<times> nat \<Rightarrow> real list \<times> nat" where
  "color_loop setHSL rnd hueBase hueRange count i (colors, k) =
     (if i < count
      then (let idx = i * 3;
                hue = hueBase + (rnd k - 0.5) * hueRange;
                (cr, cg, cb) = setHSL hue 1 0.5
            in color_loop setHSL rnd hueBase hueRange count (i + updateInterval count)
                 (colors[idx := cr, idx + 1 := cg, idx + 2 := cb], Suc k))
      else (colors, k))"
  by pat_completeness auto
termination
  by (relation "measure (\<lambda>(setHSL, rnd, hueBase, hueRange, count, i, ck). count - i)")
     (auto simp: updateInterval_def)

declare color_loop.simps [simp del]

definition updateParticleColors ::
  "hsl_fun \<Rightarrow> (nat \<Rightarrow> real) \<Rightarrow> state \<Rightarrow> real list \<times> nat \<Rightarrow> real list \<times> nat" where
  "updateParticleColors setHSL rnd st ck =
     (let (hueBase, hueRange) = hue_params (currentGesture st)
      in color_loop setHSL rnd hueBase hueRange (particleCount st) 0 ck)"

text \<open>The colour of particle \<open>i\<close>: three consecutive entries of the buffer.\<close>

definition particle_color :: "real list \<Rightarrow> nat \<Rightarrow> real \<times> real \<times> real" where
  "particle_color colors i = (colors ! (i * 3), colors ! (i * 3 + 1), colors ! (i * 3 + 2))"

text \<open>Channel 0, 1 or 2 of a colour.\<close>

definition channel :: "nat \<Rightarrow> real \<times> real \<times> real \<Rightarrow> real" where
  "channel c rgb = (case rgb of (r, g, b) \<Rightarrow> if c = 0 then r else if c = 1 then g else b)"

text \<open>Several frames in a row, each with the state it finds.\<close>

fun color_frames ::
  "hsl_fun \<Rightarrow> (nat \<Rightarrow> real) \<Rightarrow> state list \<Rightarrow> real list \<times> nat \<Rightarrow> real list \<times> nat" where
  "color_frames setHSL rnd [] ck = ck"
| "color_frames setHSL rnd (st # sts) ck =
     color_frames setHSL rnd sts (updateParticleColors setHSL rnd st ck)"

text \<open>
  Sample data for the colour pass. The stand-in for \<open>setHSL\<close> stores hue, saturation and
  lightness as they are, so that a buffer entry shows the hue it was rolled with; the
  sample random source always returns 1/2. The buffer holds, for every particle, the hue
  0.5 at full saturation and half lightness, a colour of the kind particles are created
  with. The state is the one of a narrow window (2000 particles) showing the heart.
\<close>

definition sample_setHSL :: hsl_fun where
  "sample_setHSL h s l = (h, s, l)"

definition sample_random :: "nat \<Rightarrow> real" where
  "sample_random k = 1 / 2"

definition cyan_buffer :: "nat \<Rightarrow> real list" where
  "cyan_buffer count = map (\<lambda>j. if j mod 3 = 1 then 1 else 0.5) [0..<3 * count]"

definition metal_state :: state where
  "metal_state = (initial_state 500)\<lparr>currentGesture := ''metal''\<rparr>"

section \<open>Animation frame\<close>

text \<open>
  One call of \<open>animate\<close>, as far as it touches the particle system: the clock moves on
  by 0.016, the uniforms are set from the state, and the colour pass runs. The buffers
  with the \<open>position\<close> and \<open>random\<close> attributes are set up when the particle system is
  created and \<open>animate\<close> has no statement that writes them; the shader reads them.
  Star field, camera and the draw call itself are not modelled.
\<close>

record frame =
  f_state :: state
  f_attributes :: "attributes list"
  f_colors :: "real list"
  f_draws :: nat

definition animate :: "hsl_fun \<Rightarrow> (nat \<Rightarrow> real) \<Rightarrow> frame \<Rightarrow> frame" where
  "animate setHSL rnd fr =
     (let st = (f_state fr)\<lparr>time := time (f_state fr) + 0.016\<rparr>;
          (colors, k) = updateParticleColors setHSL rnd st (f_colors fr, f_draws fr)
      in fr\<lparr>f_state := st, f_colors := colors, f_draws := k\<rparr>)"

text \<open>The position at which the shader draws particle \<open>i\<close> in a frame.\<close>

definition drawn_position :: "frame \<Rightarrow> nat \<Rightarrow> glfloat vec3" where
  "drawn_position fr i = vertex_main (frame_uniforms (f_state fr)) (f_attributes fr ! i)"

text \<open>
  A sample particle system before frame 25: 4000 particles created at (400, 0, 0) with all
  random scalars 0, the hand at the centre showing a fist.
\<close>

definition far_particle :: attributes where
  "far_particle =
     \<lparr>a_position = \<lparr>vx = 400, vy = 0, vz = 0\<rparr>, a_random = \<lparr>rx = 0, ry = 0, rz = 0, rw = 0\<rparr>\<rparr>"

definition sample_frame :: frame where
  "sample_frame =
     \<lparr>f_state = (initial_state 1024)\<lparr>currentGesture := ''fist'', time := 0.384\<rparr>,
      f_attributes = replicate 4000 far_particle,
      f_colors = cyan_buffer 4000,
      f_draws = 0\<rparr>"

text \<open>A second sample hand: the wrist at (0.3, 0.4, 0), the middle-finger base at
  (0.5, 0.2, -0.4).\<close>

definition tilted_hand :: "landmark list" where
  "tilted_hand =
     (replicate 21 \<lparr>lm_x = 0.3, lm_y = 0.4, lm_z = 0\<rparr>)[9 := \<lparr>lm_x = 0.5, lm_y = 0.2, lm_z = - 0.4\<rparr>]"

section \<open>Properties of the classifier\<close>

lemma landmark_at_in: "i < length landmarks \<Longrightarrow> landmark_at landmarks i = Some (landmarks ! i)"
  by (simp add: landmark_at_def)

lemma isFingerExtended_in:
  "tipIdx < length landmarks \<Longrightarrow> baseIdx < length landmarks \<Longrightarrow>
   isFingerExtended landmarks tipIdx baseIdx
     = Inr (lm_y (landmarks ! tipIdx) < lm_y (landmarks ! baseIdx) - 0.05)"
  by (simp add: isFingerExtended_def landmark_at_in)

lemma isThumbExtended_in:
  "4 < length landmarks \<Longrightarrow>
   isThumbExtended landmarks = Inr (\<bar>lm_x (landmarks ! 4) - lm_x (landmarks ! 2)\<bar> > 0.05)"
  by (simp add: isThumbExtended_def landmark_at_in)

lemma finger_states_in:
  assumes "21 \<le> length landmarks"
  shows "finger_states landmarks = Inr
      \<lparr>thumb = \<bar>lm_x (landmarks ! 4) - lm_x (landmarks ! 2)\<bar> > 0.05,
       index = lm_y (landmarks ! 8) < lm_y (landmarks ! 5) - 0.05,
       middle = lm_y (landmarks ! 12) < lm_y (landmarks ! 9) - 0.05,
       ring = lm_y (landmarks ! 16) < lm_y (landmarks ! 13) - 0.05,
       pinky = lm_y (landmarks ! 20) < lm_y (landmarks ! 17) - 0.05\<rparr>"
  using assms by (simp add: finger_states_def isFingerExtended_in isThumbExtended_in)

text \<open>
  Claim C1. For a hand of (at least) 21 landmarks and any previous gesture, the result of
  \<open>detectGesture\<close> is decided by the four finger tests: index and pinky alone give METAL,
  index and middle alone give PEACE, none gives FIST, all four give OPEN, and each of the
  twelve other combinations returns the previous gesture.
\<close>

theorem detectGesture_priority:
  assumes "21 \<le> length landmarks"
  shows "let i = (isFingerExtended landmarks 8 5 = Inr True);
             m = (isFingerExtended landmarks 12 9 = Inr True);
             r = (isFingerExtended landmarks 16 13 = Inr True);
             p = (isFingerExtended landmarks 20 17 = Inr True)
         in (i \<and> \<not> m \<and> \<not> r \<and> p \<longrightarrow> detectGesture st landmarks = Inr GESTURES_METAL)
          \<and> (i \<and> m \<and> \<not> r \<and> \<not> p \<longrightarrow> detectGesture st landmarks = Inr GESTURES_PEACE)
          \<and> (\<not> i \<and> \<not> m \<and> \<not> r \<and> \<not> p \<longrightarrow> detectGesture st landmarks = Inr GESTURES_FIST)
          \<and> (i \<and> m \<and> r \<and> p \<longrightarrow> detectGesture st landmarks = Inr GESTURES_OPEN)
          \<and> ((i, m, r, p) \<notin> {(True, False, False, True), (True, True, False, False),
                               (False, False, False, False), (True, True, True, True)}
               \<longrightarrow> detectGesture st landmarks = Inr (currentGesture st))"
  using assms
  by (simp add: Let_def detectGesture_def classify_def finger_states_in isFingerExtended_in)

theorem detectGesture_priority_witness:
  "21 \<le> length (replicate 21 \<lparr>lm_x = 0.3, lm_y = 0.4, lm_z = 0\<rparr>)
   \<and> detectGesture (initial_state 1024) (replicate 21 \<lparr>lm_x = 0.3, lm_y = 0.4, lm_z = 0\<rparr>)
       = Inr GESTURES_FIST
   \<and> 21 \<le> length ((replicate 21 \<lparr>lm_x = 0.3, lm_y = 0.4, lm_z = 0\<rparr>)
                       [8 := \<lparr>lm_x = 0.3, lm_y = 0.1, lm_z = 0\<rparr>])
   \<and> detectGesture ((initial_state 1024)\<lparr>currentGesture := GESTURES_OPEN\<rparr>)
        ((replicate 21 \<lparr>lm_x = 0.3, lm_y = 0.4, lm_z = 0\<rparr>)[8 := \<lparr>lm_x = 0.3, lm_y = 0.1, lm_z = 0\<rparr>])
       = Inr GESTURES_OPEN
   \<and> detectGesture ((initial_state 1024)\<lparr>currentGesture := GESTURES_PEACE\<rparr>)
        ((replicate 21 \<lparr>lm_x = 0.3, lm_y = 0.4, lm_z = 0\<rparr>)[8 := \<lparr>lm_x = 0.3, lm_y = 0.1, lm_z = 0\<rparr>])
       = Inr GESTURES_PEACE"
  using detectGesture_priority [of "replicate 21 \<lparr>lm_x = 0.3, lm_y = 0.4, lm_z = 0\<rparr>" "initial_state 1024"]
    detectGesture_priority [of "(replicate 21 \<lparr>lm_x = 0.3, lm_y = 0.4, lm_z = 0\<rparr>)[8 := \<lparr>lm_x = 0.3, lm_y = 0.1, lm_z = 0\<rparr>]"
       "(initial_state 1024)\<lparr>currentGesture := GESTURES_OPEN\<rparr>"]
    detectGesture_priority [of "(replicate 21 \<lparr>lm_x = 0.3, lm_y = 0.4, lm_z = 0\<rparr>)[8 := \<lparr>lm_x = 0.3, lm_y = 0.1, lm_z = 0\<rparr>]"
       "(initial_state 1024)\<lparr>currentGesture := GESTURES_PEACE\<rparr>"]
  by (simp add: Let_def isFingerExtended_in)

text \<open>
  Claim C7. A non-thumb finger (tip/base 8/5, 12/9, 16/13, 20/17) is extended exactly when
  the y of its tip is smaller than the y of its base minus 0.05; the thumb (tip 4, base 2)
  exactly when the absolute x distance of tip and base exceeds 0.05.
\<close>

theorem finger_extension_tests:
  assumes "21 \<le> length landmarks"
  shows "isFingerExtended landmarks 8 5 = Inr (lm_y (landmarks ! 8) < lm_y (landmarks ! 5) - 0.05)
    \<and> isFingerExtended landmarks 12 9 = Inr (lm_y (landmarks ! 12) < lm_y (landmarks ! 9) - 0.05)
    \<and> isFingerExtended landmarks 16 13 = Inr (lm_y (landmarks ! 16) < lm_y (landmarks ! 13) - 0.05)
    \<and> isFingerExtended landmarks 20 17 = Inr (lm_y (landmarks ! 20) < lm_y (landmarks ! 17) - 0.05)
    \<and> isThumbExtended landmarks = Inr (\<bar>lm_x (landmarks ! 4) - lm_x (landmarks ! 2)\<bar> > 0.05)
    \<and> finger_states landmarks = Inr
      \<lparr>thumb = \<bar>lm_x (landmarks ! 4) - lm_x (landmarks ! 2)\<bar> > 0.05,
       index = lm_y (landmarks ! 8) < lm_y (landmarks ! 5) - 0.05,
       middle = lm_y (landmarks ! 12) < lm_y (landmarks ! 9) - 0.05,
       ring = lm_y (landmarks ! 16) < lm_y (landmarks ! 13) - 0.05,
       pinky = lm_y (landmarks ! 20) < lm_y (landmarks ! 17) - 0.05\<rparr>"
  using assms by (simp add: isFingerExtended_in isThumbExtended_in finger_states_in)

theorem finger_extension_tests_witness:
  "21 \<le> length (replicate 21 \<lparr>lm_x = 0.3, lm_y = 0.4, lm_z = 0\<rparr>)
   \<and> isFingerExtended (replicate 21 \<lparr>lm_x = 0.3, lm_y = 0.4, lm_z = 0\<rparr>) 8 5 = Inr False
   \<and> isThumbExtended (replicate 21 \<lparr>lm_x = 0.3, lm_y = 0.4, lm_z = 0\<rparr>) = Inr False"
  using finger_extension_tests [of "replicate 21 \<lparr>lm_x = 0.3, lm_y = 0.4, lm_z = 0\<rparr>"]
  by simp

lemma onHandResults_hand:
  assumes "multiHandLandmarks res = Some (landmarks # others)" and "10 \<le> length landmarks"
  shows "onHandResults res st =
     (let st1 = st\<lparr>handPosition := palm_anchor (landmarks ! 0) (landmarks ! 9)\<rparr>
      in if \<not> isForcedShape st
         then (case detectGesture st1 landmarks of
                 Inl e \<Rightarrow> Inl (e, st1)
               | Inr g \<Rightarrow> Inr (st1\<lparr>currentGesture := g\<rparr>))
         else Inr st1)"
proof -
  from assms(2) have "landmark_at landmarks 0 = Some (landmarks ! 0)"
    and "landmark_at landmarks 9 = Some (landmarks ! 9)"
    by (auto simp: landmark_at_def)
  with assms(1) show ?thesis
    by (simp add: onHandResults_def Let_def)
qed

lemma handPosition_after_hand:
  assumes "multiHandLandmarks res = Some (landmarks # others)" and "10 \<le> length landmarks"
  shows "handPosition (state_after (onHandResults res st))
           = palm_anchor (landmarks ! 0) (landmarks ! 9)"
  using assms
  by (simp add: onHandResults_hand Let_def state_after_def split: sum.splits)

text \<open>
  Claim C6. When a hand is present, the anchor is computed from landmarks 0 and 9:
  x mirrored, y sign-flipped, z the negated average depth clamped to [-1, 1]. This holds
  whether or not an override is active and whether or not the classification that follows
  returns. The witness is the example of the specification: wrist = middle base =
  (0.3, 0.4, 0) gives the anchor (0.4, 0.2, 0).
\<close>

theorem anchor_from_landmarks:
  assumes "multiHandLandmarks res = Some (landmarks # others)" and "10 \<le> length landmarks"
  shows "handPosition (state_after (onHandResults res st)) =
           \<lparr>vx = (1 - (lm_x (landmarks ! 0) + lm_x (landmarks ! 9)) / 2) * 2 - 1,
            vy = - ((lm_y (landmarks ! 0) + lm_y (landmarks ! 9)) / 2 * 2 - 1),
            vz = max (- 1) (min 1 (- ((lm_z (landmarks ! 0) + lm_z (landmarks ! 9)) / 2)))\<rparr>
       \<and> - 1 \<le> vz (handPosition (state_after (onHandResults res st)))
       \<and> vz (handPosition (state_after (onHandResults res st))) \<le> 1"
  using assms by (simp add: handPosition_after_hand palm_anchor_def Let_def)

theorem anchor_from_landmarks_witness:
  "multiHandLandmarks \<lparr>multiHandLandmarks = Some [replicate 21 \<lparr>lm_x = 0.3, lm_y = 0.4, lm_z = 0\<rparr>]\<rparr>
      = Some (replicate 21 \<lparr>lm_x = 0.3, lm_y = 0.4, lm_z = 0\<rparr> # [])
   \<and> 10 \<le> length (replicate 21 \<lparr>lm_x = 0.3, lm_y = 0.4, lm_z = 0\<rparr>)
   \<and> handPosition (state_after (onHandResults
        \<lparr>multiHandLandmarks = Some [replicate 21 \<lparr>lm_x = 0.3, lm_y = 0.4, lm_z = 0\<rparr>]\<rparr>
        (initial_state 1024))) = \<lparr>vx = 0.4, vy = 0.2, vz = 0\<rparr>"
  using anchor_from_landmarks [of "\<lparr>multiHandLandmarks = Some [replicate 21 \<lparr>lm_x = 0.3, lm_y = 0.4, lm_z = 0\<rparr>]\<rparr>"
               "replicate 21 \<lparr>lm_x = 0.3, lm_y = 0.4, lm_z = 0\<rparr>" "[]" "initial_state 1024"]
  by simp

text \<open>
  Claim C9. A frame without a hand (no landmark array, or an empty one) never throws and
  keeps the anchor; it sets the gesture to NONE when no override is active and changes
  nothing when one is.
\<close>

theorem no_hand_frame:
  assumes "multiHandLandmarks res = None \<or> multiHandLandmarks res = Some []"
  shows "(\<not> isForcedShape st \<longrightarrow>
            onHandResults res st = Inr (st\<lparr>currentGesture := GESTURES_NONE\<rparr>))
       \<and> (isForcedShape st \<longrightarrow> onHandResults res st = Inr st)
       \<and> handPosition (state_after (onHandResults res st)) = handPosition st
       \<and> (\<forall>e s. onHandResults res st \<noteq> Inl (e, s))"
  using assms by (auto simp: onHandResults_def state_after_def)

theorem no_hand_frame_witness:
  "(multiHandLandmarks \<lparr>multiHandLandmarks = Some []\<rparr> = None
      \<or> multiHandLandmarks \<lparr>multiHandLandmarks = Some []\<rparr> = Some [])
   \<and> onHandResults \<lparr>multiHandLandmarks = Some []\<rparr> ((initial_state 1024)\<lparr>currentGesture := ''open''\<rparr>)
       = Inr (initial_state 1024)
   \<and> onHandResults \<lparr>multiHandLandmarks = Some []\<rparr>
        ((initial_state 1024)\<lparr>currentGesture := ''open'', isForcedShape := True\<rparr>)
       = Inr ((initial_state 1024)\<lparr>currentGesture := ''open'', isForcedShape := True\<rparr>)"
  using no_hand_frame [of "\<lparr>multiHandLandmarks = Some []\<rparr>" "(initial_state 1024)\<lparr>currentGesture := ''open''\<rparr>"]
        no_hand_frame [of "\<lparr>multiHandLandmarks = Some []\<rparr>"
               "(initial_state 1024)\<lparr>currentGesture := ''open'', isForcedShape := True\<rparr>"]
  by (simp add: initial_state_def GESTURES_NONE_def)

text \<open>
  Claim C10. While an override is active, a frame with a hand still sets the anchor from
  the landmarks of that frame (x mirrored, y flipped, z negated and clamped, of the
  midpoint of landmarks 0 and 9); the gesture and the override flag stay as they are. The
  sample run feeds two different hands in a row and the anchor follows each.
\<close>

theorem anchor_live_under_override:
  assumes "isForcedShape st"
    and "multiHandLandmarks res = Some (landmarks # others)" and "10 \<le> length landmarks"
  shows "onHandResults res st
           = Inr (st\<lparr>handPosition :=
                \<lparr>vx = (1 - (lm_x (landmarks ! 0) + lm_x (landmarks ! 9)) / 2) * 2 - 1,
                 vy = - ((lm_y (landmarks ! 0) + lm_y (landmarks ! 9)) / 2 * 2 - 1),
                 vz = max (- 1) (min 1 (- ((lm_z (landmarks ! 0) + lm_z (landmarks ! 9)) / 2)))\<rparr>\<rparr>)
       \<and> currentGesture (state_after (onHandResults res st)) = currentGesture st
       \<and> isForcedShape (state_after (onHandResults res st))"
  using assms by (simp add: onHandResults_hand Let_def state_after_def palm_anchor_def)

theorem anchor_live_under_override_witness:
  "isForcedShape ((initial_state 1024)\<lparr>currentGesture := ''fist'', isForcedShape := True\<rparr>)
   \<and> multiHandLandmarks (frame_with tilted_hand) = Some (tilted_hand # [])
   \<and> 10 \<le> length tilted_hand
   \<and> onHandResults (frame_with tilted_hand)
        ((initial_state 1024)\<lparr>currentGesture := ''fist'', isForcedShape := True\<rparr>)
      = Inr ((initial_state 1024)\<lparr>currentGesture := ''fist'', isForcedShape := True,
               handPosition := \<lparr>vx = 0.2, vy = 0.4, vz = 0.2\<rparr>\<rparr>)
   \<and> multiHandLandmarks (frame_with open_palm) = Some (open_palm # [])
   \<and> 10 \<le> length open_palm
   \<and> onHandResults (frame_with open_palm)
        ((initial_state 1024)\<lparr>currentGesture := ''fist'', isForcedShape := True,
               handPosition := \<lparr>vx = 0.2, vy = 0.4, vz = 0.2\<rparr>\<rparr>)
      = Inr ((initial_state 1024)\<lparr>currentGesture := ''fist'', isForcedShape := True,
               handPosition := \<lparr>vx = 0, vy = 0, vz = 0\<rparr>\<rparr>)"
  using anchor_live_under_override
          [of "(initial_state 1024)\<lparr>currentGesture := ''fist'', isForcedShape := True\<rparr>"
              "frame_with tilted_hand" tilted_hand "[]"]
        anchor_live_under_override
          [of "(initial_state 1024)\<lparr>currentGesture := ''fist'', isForcedShape := True,
               handPosition := \<lparr>vx = 0.2, vy = 0.4, vz = 0.2\<rparr>\<rparr>"
              "frame_with open_palm" open_palm "[]"]
  by (simp add: initial_state_def frame_with_def tilted_hand_def open_palm_def Let_def)

section \<open>Properties of the forced override\<close>

lemma timer_inv_initial: "timer_inv (initial_system innerWidth)"
  by (simp add: timer_inv_def initial_system_def initial_state_def)

lemma state_after_forced:
  "isForcedShape (state_after (onHandResults res st)) = isForcedShape st
   \<and> forcedShapeTimer (state_after (onHandResults res st)) = forcedShapeTimer st"
  by (auto simp: onHandResults_def state_after_def Let_def
           split: option.splits list.splits sum.splits)

lemma state_after_gesture_forced:
  "isForcedShape st \<Longrightarrow> currentGesture (state_after (onHandResults res st)) = currentGesture st"
  by (auto simp: onHandResults_def state_after_def Let_def
           split: option.splits list.splits sum.splits)

lemma timer_inv_hand: "timer_inv sys \<Longrightarrow> timer_inv (exec (Hand res) sys)"
  by (simp add: timer_inv_def state_after_forced split: list.splits)

lemma pending_forceShape:
  assumes "timer_inv sys"
  shows "pending (env (forceShape shape sys))
           = [\<lparr>handle = nextHandle (env sys), due = now (env sys) + 5000,
               callback = ResetForcedShape\<rparr>]"
  using assms
  by (auto simp: timer_inv_def forceShape_def setTimeout_def clearTimeout_def Let_def
           split: list.splits option.splits)

lemma timer_inv_forceShape:
  assumes "timer_inv sys"
  shows "timer_inv (forceShape shape sys)"
proof -
  have "0 < nextHandle (env sys)" using assms by (simp add: timer_inv_def)
  moreover have "isForcedShape (app (forceShape shape sys))"
    and "forcedShapeTimer (app (forceShape shape sys)) = Some (nextHandle (env sys))"
    and "0 < nextHandle (env (forceShape shape sys))"
    by (simp_all add: forceShape_def setTimeout_def clearTimeout_def Let_def split: option.splits)
  ultimately show ?thesis
    by (simp add: timer_inv_def pending_forceShape [OF assms])
qed

lemma run_callback_reset:
  "currentGesture (run_callback cb st) = GESTURES_NONE \<and> \<not> isForcedShape (run_callback cb st)"
  by (cases cb) simp

lemma timer_inv_advance:
  assumes "timer_inv sys"
  shows "timer_inv (advance d sys)"
  using assms
  by (auto simp: timer_inv_def advance_def Let_def run_callback_reset split: list.splits)

lemma timer_inv_exec: "timer_inv sys \<Longrightarrow> timer_inv (exec ev sys)"
  by (cases ev) (simp_all add: timer_inv_hand timer_inv_forceShape timer_inv_advance del: exec.simps(2))

lemma reachable_timer_inv: "reachable innerWidth sys \<Longrightarrow> timer_inv sys"
  by (induction rule: reachable.induct) (simp_all add: timer_inv_initial timer_inv_exec)

lemma override_active_forceShape:
  assumes "timer_inv sys"
  shows "override_active shape (now (env sys) + 5000) (forceShape shape sys)"
proof -
  have "currentGesture (app (forceShape shape sys)) = shape"
    by (simp add: forceShape_def setTimeout_def Let_def split: option.splits)
  then show ?thesis
    by (simp add: override_active_def timer_inv_forceShape [OF assms] pending_forceShape [OF assms])
qed

lemma now_forceShape: "now (env (forceShape shape sys)) = now (env sys)"
  by (simp add: forceShape_def setTimeout_def clearTimeout_def Let_def split: option.splits)

lemma override_active_step:
  assumes act: "override_active shape deadline sys"
    and nf: "\<not> is_force ev"
    and early: "now (env sys) + elapsed [ev] < deadline"
  shows "override_active shape deadline (exec ev sys)
       \<and> now (env (exec ev sys)) = now (env sys) + elapsed [ev]"
proof (cases ev)
  case (Force g)
  with nf show ?thesis by simp
next
  case (Hand res)
  from act have "isForcedShape (app sys)"
    by (auto simp: override_active_def timer_inv_def split: list.splits)
  then have "currentGesture (state_after (onHandResults res (app sys))) = currentGesture (app sys)"
    by (rule state_after_gesture_forced)
  moreover have "timer_inv (exec (Hand res) sys)"
    using act by (simp add: override_active_def timer_inv_hand del: exec.simps)
  ultimately show ?thesis
    using act Hand by (simp add: override_active_def)
next
  case (Elapse d)
  with act early show ?thesis
    by (auto simp: override_active_def timer_inv_def advance_def Let_def split: list.splits)
qed

lemma override_active_run:
  assumes "override_active shape deadline sys"
    and "\<forall>ev \<in> set evs. \<not> is_force ev"
    and "now (env sys) + elapsed evs < deadline"
  shows "override_active shape deadline (run evs sys)
       \<and> now (env (run evs sys)) = now (env sys) + elapsed evs"
  using assms
proof (induction evs arbitrary: sys)
  case Nil
  then show ?case by (simp add: run_def)
next
  case (Cons ev evs)
  have split: "elapsed (ev # evs) = elapsed [ev] + elapsed evs"
    by (cases ev) simp_all
  from Cons.prems have nf: "\<not> is_force ev" and rest: "\<forall>e \<in> set evs. \<not> is_force e"
    by simp_all
  from Cons.prems(3) split have "now (env sys) + elapsed [ev] < deadline"
    by simp
  with Cons.prems(1) nf
  have step: "override_active shape deadline (exec ev sys)"
    and clock: "now (env (exec ev sys)) = now (env sys) + elapsed [ev]"
    using override_active_step by blast+
  from Cons.prems(3) split clock
  have "now (env (exec ev sys)) + elapsed evs < deadline" by simp
  from Cons.IH [OF step rest this] clock split
  show ?case by (simp add: run_def)
qed

lemma override_expires:
  assumes "override_active shape deadline sys" and "deadline \<le> now (env sys) + d"
  shows "currentGesture (app (advance d sys)) = GESTURES_NONE
       \<and> \<not> isForcedShape (app (advance d sys))
       \<and> pending (env (advance d sys)) = []"
proof -
  from assms(1) obtain tm where p: "pending (env sys) = [tm]" and d: "due tm = deadline"
    by (auto simp: override_active_def split: list.splits)
  with assms(2) show ?thesis
    by (simp add: advance_def Let_def run_callback_reset)
qed

lemma live_classification:
  assumes "\<not> isForcedShape st"
    and "multiHandLandmarks res = Some (landmarks # others)" and "21 \<le> length landmarks"
  shows "Inr (currentGesture (state_after (onHandResults res st))) = detectGesture st landmarks"
  using assms
  by (simp add: onHandResults_hand Let_def state_after_def detectGesture_def finger_states_in)

text \<open>
  Claim C2. In every reachable state, \<open>forceShape\<close> sets the gesture at once and leaves
  exactly one pending timer, due 5000 ms later (a timer that was pending is cleared). As
  long as less than 5000 ms have passed and no new override is issued, tracker frames do
  not change the gesture. The step of the clock that reaches 5000 ms sets the gesture to
  NONE, whatever hand the tracker has been delivering, and ends the override; the next
  frame with a hand is classified again. No reachable state has more than one pending
  timer.
\<close>

theorem forced_override_window:
  assumes reach: "reachable innerWidth sys"
    and quiet: "\<forall>ev \<in> set evs. \<not> is_force ev"
    and early: "elapsed evs < 5000"
    and late: "5000 \<le> elapsed evs + d"
    and hand: "multiHandLandmarks res = Some (landmarks # others)" "21 \<le> length landmarks"
  shows "let forced = forceShape shape sys;
             during = run evs forced;
             expired = exec (Elapse d) during
         in currentGesture (app forced) = shape \<and> isForcedShape (app forced)
          \<and> pending (env forced) =
               [\<lparr>handle = nextHandle (env sys), due = now (env sys) + 5000,
                 callback = ResetForcedShape\<rparr>]
          \<and> currentGesture (app during) = shape \<and> isForcedShape (app during)
          \<and> now (env during) = now (env sys) + elapsed evs
          \<and> currentGesture (app expired) = GESTURES_NONE \<and> \<not> isForcedShape (app expired)
          \<and> pending (env expired) = []
          \<and> Inr (currentGesture (app (exec (Hand res) expired)))
               = detectGesture (app expired) landmarks
          \<and> length (pending (env sys)) \<le> 1"
proof -
  let ?forced = "forceShape shape sys"
  let ?deadline = "now (env sys) + 5000"
  let ?during = "run evs ?forced"
  let ?expired = "advance d ?during"
  have inv: "timer_inv sys" using reach by (rule reachable_timer_inv)
  have act: "override_active shape ?deadline ?forced"
    using inv by (rule override_active_forceShape)
  have one: "length (pending (env sys)) \<le> 1"
    using inv by (simp add: timer_inv_def split: list.splits)
  have pend: "pending (env ?forced) =
      [\<lparr>handle = nextHandle (env sys), due = ?deadline, callback = ResetForcedShape\<rparr>]"
    using inv by (rule pending_forceShape)
  have forced: "currentGesture (app ?forced) = shape \<and> isForcedShape (app ?forced)"
    using act by (auto simp: override_active_def timer_inv_def split: list.splits)
  have "now (env ?forced) + elapsed evs < ?deadline"
    using early by (simp add: now_forceShape)
  with act quiet
  have dur: "override_active shape ?deadline ?during"
    and clock: "now (env ?during) = now (env sys) + elapsed evs"
    using override_active_run [of shape ?deadline ?forced evs] by (simp_all add: now_forceShape)
  have during: "currentGesture (app ?during) = shape \<and> isForcedShape (app ?during)"
    using dur by (auto simp: override_active_def timer_inv_def split: list.splits)
  have "?deadline \<le> now (env ?during) + d"
    using late clock by simp
  with dur have expired: "currentGesture (app ?expired) = GESTURES_NONE
       \<and> \<not> isForcedShape (app ?expired) \<and> pending (env ?expired) = []"
    by (rule override_expires)
  then have live: "Inr (currentGesture (state_after (onHandResults res (app ?expired))))
       = detectGesture (app ?expired) landmarks"
    using hand by (simp add: live_classification)
  show ?thesis
    unfolding Let_def
    using forced pend during clock expired live one by simp
qed

theorem forced_override_window_witness:
  "reachable 1024 (initial_system 1024)
   \<and> \<not> is_force (Hand (frame_with open_palm)) \<and> \<not> is_force (Elapse 4999)
   \<and> elapsed [Hand (frame_with open_palm), Elapse 4999] < 5000
   \<and> 5000 \<le> elapsed [Hand (frame_with open_palm), Elapse 4999] + 1
   \<and> multiHandLandmarks (frame_with open_palm) = Some (open_palm # [])
   \<and> 21 \<le> length open_palm
   \<and> currentGesture (app (run [Hand (frame_with open_palm), Elapse 4999]
        (forceShape ''fist'' (initial_system 1024)))) = ''fist''
   \<and> currentGesture (app (run [Hand (frame_with open_palm), Elapse 4999, Elapse 1]
        (forceShape ''fist'' (initial_system 1024)))) = ''none''
   \<and> currentGesture (app (run [Hand (frame_with open_palm), Elapse 4999, Elapse 1,
                                  Hand (frame_with open_palm)]
        (forceShape ''fist'' (initial_system 1024)))) = ''open''"
  using forced_override_window [of 1024 "initial_system 1024" "[Hand (frame_with open_palm), Elapse 4999]" 1
               "frame_with open_palm" open_palm "[]" "''fist''"]
        reach_init [of 1024]
  by (simp add: Let_def run_def frame_with_def open_palm_def GESTURES_NONE_def GESTURES_FIST_def GESTURES_OPEN_def GESTURES_PEACE_def GESTURES_METAL_def
        detectGesture_def classify_def finger_states_in del: exec.simps(2))

section \<open>Properties of the vertex shader\<close>

lemma vertex_main_unfold:
  "vertex_main u a =
     add3 (mix3 (a_position a) (fst (shape_target u a)) (snd (shape_target u a) * 0.1))
          (noise_movement (u_time u * 2) (rx (a_random a)))"
  by (simp add: vertex_main_def split_beta)

lemma blend_of_gesture:
  "snd (shape_target u a) =
     (if u_gesture u = 1 then 0.95 else if u_gesture u = 2 then 0.9
      else if u_gesture u = 3 then 0.92 else if u_gesture u = 4 then 0.94 else 0.02)"
  by (simp add: shape_target_def Let_def)

lemma gesture_uniform_values:
  "gesture_uniform ''none'' = 0 \<and> gesture_uniform ''fist'' = 1 \<and> gesture_uniform ''open'' = 2
   \<and> gesture_uniform ''peace'' = 3 \<and> gesture_uniform ''metal'' = 4"
  by (simp add: gesture_uniform_def gestureMap_def)

lemma sin_turbulence_differs: "sin (0.4::real) \<noteq> sin 0.8"
proof
  assume eq: "sin (0.4::real) = sin 0.8"
  have pos: "0 < sin (0.4::real)" by (rule sin_gt_zero_02) simp_all
  have "sin (0.8::real) = 2 * sin 0.4 * cos 0.4" using sin_double [of "0.4::real"] by simp
  with eq pos have half: "cos (0.4::real) = 1/2" by simp
  have "cos (0.8::real) = 2 * (cos 0.4)\<^sup>2 - 1" using cos_double_cos [of "0.4::real"] by simp
  also have "\<dots> = 2 * (1/2)\<^sup>2 - 1" by (simp only: half)
  finally have neg: "cos (0.8::real) < 0" by (simp add: power2_eq_square)
  have "(0.8::real) \<le> pi / 2" using pi_ge_two by simp
  then have "0 \<le> cos (0.8::real)" by (intro cos_ge_zero) simp_all
  with neg show False by simp
qed

lemma glsl_pow_cube: "0 \<le> x \<Longrightarrow> glsl_pow x 3 = Some (x ^ 3)"
  by (cases "x = 0") (simp_all add: glsl_pow_def)

lemma animate_attributes: "f_attributes (animate setHSL rnd fr) = f_attributes fr"
  by (simp add: animate_def Let_def split_beta)

lemma animate_state:
  "f_state (animate setHSL rnd fr) = (f_state fr)\<lparr>time := time (f_state fr) + 0.016\<rparr>"
  by (simp add: animate_def Let_def split_beta)

lemma target_defined_yz:
  "vy (fst (shape_target u a)) \<noteq> None \<and> vz (fst (shape_target u a)) \<noteq> None"
  by (simp add: shape_target_def Let_def fist_target_def open_target_def peace_target_def
        metal_target_def none_target_def defined3_def)

lemma target_defined_x:
  assumes "u_gesture u \<noteq> 4 \<or> 0 \<le> sin (rx (a_random a) * 6.28318)"
  shows "vx (fst (shape_target u a)) \<noteq> None"
  using assms
  by (auto simp: shape_target_def Let_def fist_target_def open_target_def peace_target_def
        metal_target_def none_target_def defined3_def glsl_pow_cube)

text \<open>
  Claim C3, amended. In every frame, for every particle and every value of the gesture, the
  shader draws the particle at \<open>mix(position, target, blend * 0.1)\<close> plus the turbulence
  \<open>(sin (t + r0 * 10), cos (t + r0 * 10), sin (t * 0.5 + r0 * 10))\<close>, each component times 2,
  in each coordinate whose target is defined. Here \<open>position\<close> is the particle's position
  attribute and \<open>t\<close> is twice the elapsed time; the third turbulence component has its own
  argument, with half the time. The y and z targets are always defined, the x target is
  defined for every gesture but METAL, and for METAL where \<open>sin (r0 * 6.28318)\<close> is not
  negative. The blend is 0.02 for NONE, 0.95 for FIST, 0.9 for OPEN, 0.92 for PEACE and
  0.94 for METAL.
\<close>

theorem position_update:
  "(vx (fst (shape_target u a)) = Some tx \<longrightarrow>
      vx (vertex_main u a) =
        Some (vx (a_position a) * (1 - snd (shape_target u a) * 0.1)
              + tx * (snd (shape_target u a) * 0.1)
              + sin (u_time u * 2 + rx (a_random a) * 10) * 2))
   \<and> (vy (fst (shape_target u a)) = Some ty \<longrightarrow>
      vy (vertex_main u a) =
        Some (vy (a_position a) * (1 - snd (shape_target u a) * 0.1)
              + ty * (snd (shape_target u a) * 0.1)
              + cos (u_time u * 2 + rx (a_random a) * 10) * 2))
   \<and> (vz (fst (shape_target u a)) = Some tz \<longrightarrow>
      vz (vertex_main u a) =
        Some (vz (a_position a) * (1 - snd (shape_target u a) * 0.1)
              + tz * (snd (shape_target u a) * 0.1)
              + sin (u_time u * 2 * 0.5 + rx (a_random a) * 10) * 2))
   \<and> (u_gesture u \<noteq> 4 \<or> 0 \<le> sin (rx (a_random a) * 6.28318) \<longrightarrow>
        vx (fst (shape_target u a)) \<noteq> None)
   \<and> vy (fst (shape_target u a)) \<noteq> None \<and> vz (fst (shape_target u a)) \<noteq> None
   \<and> snd (shape_target (frame_uniforms (st\<lparr>currentGesture := GESTURES_NONE\<rparr>)) a) = 0.02
   \<and> snd (shape_target (frame_uniforms (st\<lparr>currentGesture := GESTURES_FIST\<rparr>)) a) = 0.95
   \<and> snd (shape_target (frame_uniforms (st\<lparr>currentGesture := GESTURES_OPEN\<rparr>)) a) = 0.9
   \<and> snd (shape_target (frame_uniforms (st\<lparr>currentGesture := GESTURES_PEACE\<rparr>)) a) = 0.92
   \<and> snd (shape_target (frame_uniforms (st\<lparr>currentGesture := GESTURES_METAL\<rparr>)) a) = 0.94"
proof -
  have x: "vx (vertex_main u a) =
        Some (vx (a_position a) * (1 - snd (shape_target u a) * 0.1)
              + tx * (snd (shape_target u a) * 0.1)
              + sin (u_time u * 2 + rx (a_random a) * 10) * 2)"
    if "vx (fst (shape_target u a)) = Some tx"
    using that by (simp add: vertex_main_unfold noise_movement_def mix3_def mix_def add3_def)
  have y: "vy (vertex_main u a) =
        Some (vy (a_position a) * (1 - snd (shape_target u a) * 0.1)
              + ty * (snd (shape_target u a) * 0.1)
              + cos (u_time u * 2 + rx (a_random a) * 10) * 2)"
    if "vy (fst (shape_target u a)) = Some ty"
    using that by (simp add: vertex_main_unfold noise_movement_def mix3_def mix_def add3_def)
  have z: "vz (vertex_main u a) =
        Some (vz (a_position a) * (1 - snd (shape_target u a) * 0.1)
              + tz * (snd (shape_target u a) * 0.1)
              + sin (u_time u * 2 * 0.5 + rx (a_random a) * 10) * 2)"
    if "vz (fst (shape_target u a)) = Some tz"
    using that by (simp add: vertex_main_unfold noise_movement_def mix3_def mix_def add3_def)
  have blends:
    "snd (shape_target (frame_uniforms (st\<lparr>currentGesture := GESTURES_NONE\<rparr>)) a) = 0.02"
    "snd (shape_target (frame_uniforms (st\<lparr>currentGesture := GESTURES_FIST\<rparr>)) a) = 0.95"
    "snd (shape_target (frame_uniforms (st\<lparr>currentGesture := GESTURES_OPEN\<rparr>)) a) = 0.9"
    "snd (shape_target (frame_uniforms (st\<lparr>currentGesture := GESTURES_PEACE\<rparr>)) a) = 0.92"
    "snd (shape_target (frame_uniforms (st\<lparr>currentGesture := GESTURES_METAL\<rparr>)) a) = 0.94"
    by (simp_all add: blend_of_gesture frame_uniforms_def gesture_uniform_values
          GESTURES_NONE_def GESTURES_FIST_def GESTURES_OPEN_def GESTURES_PEACE_def
          GESTURES_METAL_def)
  from x y z blends target_defined_x [of u a] target_defined_yz [of u a]
  show ?thesis by blast
qed

theorem position_update_witness:
  "vx (fst (shape_target (sample_uniforms 1) far_particle)) = Some 0
   \<and> vx (vertex_main (sample_uniforms 1) far_particle) = Some (362 + sin 0.8 * 2)
   \<and> vy (vertex_main (sample_uniforms 1) far_particle) = Some (cos 0.8 * 2)
   \<and> vz (vertex_main (sample_uniforms 1) far_particle) = Some (sin 0.4 * 2)"
proof -
  have tg: "fst (shape_target (sample_uniforms 1) far_particle) = defined3 0 0 0"
    by (simp add: shape_target_def fist_target_def glsl_step_def sample_uniforms_def
          far_particle_def Let_def)
  have b: "snd (shape_target (sample_uniforms 1) far_particle) = 0.95"
    by (simp add: blend_of_gesture sample_uniforms_def)
  from tg have c: "vx (fst (shape_target (sample_uniforms 1) far_particle)) = Some 0"
    "vy (fst (shape_target (sample_uniforms 1) far_particle)) = Some 0"
    "vz (fst (shape_target (sample_uniforms 1) far_particle)) = Some 0"
    by (simp_all add: defined3_def)
  from position_update [of "sample_uniforms 1" far_particle 0 0 0] c b
  show ?thesis
    by (simp add: sample_uniforms_def far_particle_def)
qed

lemma far_particle_drawn:
  "drawn_position (animate sample_setHSL sample_random sample_frame) 0
     = defined3 (362 + sin 0.8 * 2) (cos 0.8 * 2) (sin 0.4 * 2)"
proof -
  have st: "frame_uniforms (f_state (animate sample_setHSL sample_random sample_frame))
      = \<lparr>u_time = 0.4, u_handPos = \<lparr>vx = 0, vy = 0, vz = 0\<rparr>, u_gesture = 1\<rparr>"
    by (simp add: animate_state sample_frame_def initial_state_def frame_uniforms_def
          gesture_uniform_values)
  have at: "f_attributes (animate sample_setHSL sample_random sample_frame) ! 0 = far_particle"
    by (simp add: animate_attributes sample_frame_def)
  show ?thesis
    unfolding drawn_position_def st at
    by (simp add: vertex_main_unfold shape_target_def fist_target_def glsl_step_def
          noise_movement_def mix3_def mix_def add3_def defined3_def far_particle_def Let_def)
qed

text \<open>
  Claim C3 as stated fails twice. With the turbulence of the specification,
  \<open>(sin, cos, sin)\<close> of the one argument \<open>t + r0 * 10\<close>, the position of the sample particle
  in frame 25 under NONE differs from what the shader computes (in z: \<open>2 * sin 0.4\<close> against
  \<open>2 * sin 0.8\<close>). And the stored position is not updated: after frame 25 of the sample
  particle system under FIST the position attribute of particle 0 is what it was, x = 400,
  while the shader has drawn the particle at x = \<open>362 + 2 * sin 0.8\<close>.
\<close>

theorem turbulence_counterexample:
  "vertex_main (sample_uniforms 0) sample_particle \<noteq>
     add3 (mix3 (a_position sample_particle)
                (fst (shape_target (sample_uniforms 0) sample_particle))
                (snd (shape_target (sample_uniforms 0) sample_particle) * 0.1))
          (spec_turbulence (u_time (sample_uniforms 0) * 2) (rx (a_random sample_particle)))
   \<and> a_position (f_attributes (animate sample_setHSL sample_random sample_frame) ! 0)
       = a_position (f_attributes sample_frame ! 0)
   \<and> Some (vx (a_position (f_attributes (animate sample_setHSL sample_random sample_frame) ! 0)))
       \<noteq> vx (drawn_position (animate sample_setHSL sample_random sample_frame) 0)"
proof -
  have noise: "vertex_main (sample_uniforms 0) sample_particle \<noteq>
     add3 (mix3 (a_position sample_particle)
                (fst (shape_target (sample_uniforms 0) sample_particle))
                (snd (shape_target (sample_uniforms 0) sample_particle) * 0.1))
          (spec_turbulence (u_time (sample_uniforms 0) * 2) (rx (a_random sample_particle)))"
  proof
    assume eq: "vertex_main (sample_uniforms 0) sample_particle =
       add3 (mix3 (a_position sample_particle)
                  (fst (shape_target (sample_uniforms 0) sample_particle))
                  (snd (shape_target (sample_uniforms 0) sample_particle) * 0.1))
            (spec_turbulence (u_time (sample_uniforms 0) * 2) (rx (a_random sample_particle)))"
    have "vz (vertex_main (sample_uniforms 0) sample_particle) =
        vz (add3 (mix3 (a_position sample_particle)
                  (fst (shape_target (sample_uniforms 0) sample_particle))
                  (snd (shape_target (sample_uniforms 0) sample_particle) * 0.1))
            (spec_turbulence (u_time (sample_uniforms 0) * 2) (rx (a_random sample_particle))))"
      using eq by simp
    then have "sin (0.4::real) = sin 0.8"
      by (simp add: vertex_main_unfold shape_target_def none_target_def defined3_def mix3_def
            mix_def add3_def noise_movement_def spec_turbulence_def sample_uniforms_def
            sample_particle_def Let_def)
    with sin_turbulence_differs show False by simp
  qed
  have kept: "a_position (f_attributes (animate sample_setHSL sample_random sample_frame) ! 0)
       = a_position (f_attributes sample_frame ! 0)"
    by (simp add: animate_attributes)
  have stored: "vx (a_position (f_attributes (animate sample_setHSL sample_random sample_frame) ! 0))
      = 400"
    by (simp add: animate_attributes sample_frame_def far_particle_def)
  have "sin (4 / 5 :: real) \<le> 1" by (rule sin_le_one)
  then have "(400::real) \<noteq> 362 + sin (4 / 5) * 2" by linarith
  then have differs:
    "Some (vx (a_position (f_attributes (animate sample_setHSL sample_random sample_frame) ! 0)))
       \<noteq> vx (drawn_position (animate sample_setHSL sample_random sample_frame) 0)"
    unfolding stored far_particle_drawn by (simp add: defined3_def)
  from noise kept differs show ?thesis by blast
qed





lemma fist_branch:
  "u_gesture u = 1 \<Longrightarrow>
   fst (shape_target u a) =
     fist_target (u_time u * 2) (rx (a_random a)) (rw (a_random a))
       \<lparr>vx = vx (u_handPos u) * 500, vy = vy (u_handPos u) * 500, vz = vz (u_handPos u) * 500\<rparr>"
  by (simp add: shape_target_def Let_def)

lemma sphere_point_norm:
  "(R * sin \<theta> * cos \<phi>)\<^sup>2 + (R * sin \<theta> * sin \<phi>)\<^sup>2 + (R * cos \<theta>)\<^sup>2 = R\<^sup>2" for R :: real
proof -
  have "(R * sin \<theta> * cos \<phi>)\<^sup>2 + (R * sin \<theta> * sin \<phi>)\<^sup>2
      = (R * sin \<theta>)\<^sup>2 * ((cos \<phi>)\<^sup>2 + (sin \<phi>)\<^sup>2)"
    by (simp only: power_mult_distrib distrib_left)
  also have "\<dots> = R\<^sup>2 * (sin \<theta>)\<^sup>2"
    by (simp add: power_mult_distrib)
  finally have "(R * sin \<theta> * cos \<phi>)\<^sup>2 + (R * sin \<theta> * sin \<phi>)\<^sup>2 + (R * cos \<theta>)\<^sup>2
      = R\<^sup>2 * ((sin \<theta>)\<^sup>2 + (cos \<theta>)\<^sup>2)"
    by (simp only: power_mult_distrib distrib_left)
  then show ?thesis by simp
qed

text \<open>
  Claim C8. Under FIST a particle with \<open>0.3 \<le> r3\<close> (the boundary included) targets the
  ring: the point at angle \<open>r0 * 6.28318 + 0.3 * t\<close> of a circle of radius \<open>120 + r0 * 80\<close>,
  between 120 and 200, around the scaled anchor, flattened by 0.2 in y and 0.5 in z. A
  particle with \<open>r3 < 0.3\<close> targets a point of the planet body, at distance \<open>60 * r0\<close>,
  at most 60, from the scaled anchor, turning with time.
\<close>

theorem fist_ring_and_planet:
  assumes "u_gesture u = 1" and "0 \<le> rx (a_random a)" and "rx (a_random a) < 1"
  shows "let t = u_time u * 2;
             r0 = rx (a_random a);
             r3 = rw (a_random a);
             Hx = vx (u_handPos u) * 500; Hy = vy (u_handPos u) * 500; Hz = vz (u_handPos u) * 500;
             radius = 120 + r0 * 80;
             angle = r0 * 6.28318 + t * 0.3;
             x = r0 * 60 * sin (r3 * 3.14159) * cos (r0 * 6.28318 + t * 0.5);
             y = r0 * 60 * sin (r3 * 3.14159) * sin (r0 * 6.28318 + t * 0.5);
             z = r0 * 60 * cos (r3 * 3.14159);
             target = fst (shape_target u a)
         in (0.3 \<le> r3 \<longrightarrow>
               target = defined3 (Hx + cos angle * radius)
                                 (Hy + sin angle * radius * 0.2)
                                 (Hz + sin angle * radius * 0.5)
               \<and> 120 \<le> radius \<and> radius \<le> 200)
          \<and> (r3 < 0.3 \<longrightarrow>
               target = defined3 (Hx + x) (Hy + y) (Hz + z)
               \<and> x\<^sup>2 + y\<^sup>2 + z\<^sup>2 = (r0 * 60)\<^sup>2 \<and> x\<^sup>2 + y\<^sup>2 + z\<^sup>2 \<le> 60\<^sup>2)"
proof -
  let ?r0 = "rx (a_random a)"
  let ?th = "rw (a_random a) * 3.14159"
  let ?ph = "?r0 * 6.28318 + u_time u * 2 * 0.5"
  let ?x = "?r0 * 60 * sin ?th * cos ?ph"
  let ?y = "?r0 * 60 * sin ?th * sin ?ph"
  let ?z = "?r0 * 60 * cos ?th"
  have norm: "?x\<^sup>2 + ?y\<^sup>2 + ?z\<^sup>2 = (?r0 * 60)\<^sup>2"
    by (rule sphere_point_norm)
  have "(?r0 * 60)\<^sup>2 \<le> 60\<^sup>2"
    using assms(2,3) by (intro power_mono) simp_all
  with norm have bound: "?x\<^sup>2 + ?y\<^sup>2 + ?z\<^sup>2 \<le> 60\<^sup>2" by simp
  have ring: "fst (shape_target u a) =
        defined3 (vx (u_handPos u) * 500 + cos (?r0 * 6.28318 + u_time u * 2 * 0.3) * (120 + ?r0 * 80))
                 (vy (u_handPos u) * 500 + sin (?r0 * 6.28318 + u_time u * 2 * 0.3) * (120 + ?r0 * 80) * 0.2)
                 (vz (u_handPos u) * 500 + sin (?r0 * 6.28318 + u_time u * 2 * 0.3) * (120 + ?r0 * 80) * 0.5)"
    if "0.3 \<le> rw (a_random a)"
    using assms(1) that by (simp add: fist_branch fist_target_def glsl_step_def Let_def)
  have planet: "fst (shape_target u a) = defined3 (vx (u_handPos u) * 500 + ?x)
            (vy (u_handPos u) * 500 + ?y) (vz (u_handPos u) * 500 + ?z)"
    if "rw (a_random a) < 0.3"
    using assms(1) that by (simp add: fist_branch fist_target_def glsl_step_def Let_def)
  have lo: "120 \<le> 120 + ?r0 * 80" using assms(2) by simp
  have hi: "120 + ?r0 * 80 \<le> 200" using assms(3) by simp
  show ?thesis
    unfolding Let_def using ring planet norm bound lo hi by blast
qed

theorem fist_ring_and_planet_witness:
  "u_gesture (sample_uniforms 1) = 1
   \<and> 0 \<le> rx (a_random (particle_with 0.5 0.3)) \<and> rx (a_random (particle_with 0.5 0.3)) < 1
   \<and> vx (fst (shape_target (sample_uniforms 1) (particle_with 0.5 0.3)))
       = Some (cos (0.5 * 6.28318 + 0.4 * 2 * 0.3) * 160)
   \<and> vx (fst (shape_target (sample_uniforms 1) (particle_with 0.5 0.31)))
       = Some (cos (0.5 * 6.28318 + 0.4 * 2 * 0.3) * 160)
   \<and> (\<exists>x y z. fst (shape_target (sample_uniforms 1) (particle_with 0.5 0.29))
        = defined3 (vx (u_handPos (sample_uniforms 1)) * 500 + x)
                   (vy (u_handPos (sample_uniforms 1)) * 500 + y)
                   (vz (u_handPos (sample_uniforms 1)) * 500 + z)
      \<and> x\<^sup>2 + y\<^sup>2 + z\<^sup>2 \<le> 60\<^sup>2)"
proof -
  have g: "u_gesture (sample_uniforms 1) = 1" by (simp add: sample_uniforms_def)
  have r1: "0 \<le> rx (a_random (particle_with 0.5 w))" for w
    by (simp add: particle_with_def)
  have r2: "rx (a_random (particle_with 0.5 w)) < 1" for w
    by (simp add: particle_with_def)
  have boundary: "vx (fst (shape_target (sample_uniforms 1) (particle_with 0.5 0.3)))
       = Some (cos (0.5 * 6.28318 + 0.4 * 2 * 0.3) * 160)"
    using fist_ring_and_planet [OF g r1 [of "0.3"] r2 [of "0.3"]]
    by (simp add: Let_def sample_uniforms_def particle_with_def defined3_def)
  have above: "vx (fst (shape_target (sample_uniforms 1) (particle_with 0.5 0.31)))
       = Some (cos (0.5 * 6.28318 + 0.4 * 2 * 0.3) * 160)"
    using fist_ring_and_planet [OF g r1 [of "0.31"] r2 [of "0.31"]]
    by (simp add: Let_def sample_uniforms_def particle_with_def defined3_def)
  have "rw (a_random (particle_with 0.5 0.29)) < 0.3" by (simp add: particle_with_def)
  with fist_ring_and_planet [OF g r1 [of "0.29"] r2 [of "0.29"]]
  have below: "\<exists>x y z. fst (shape_target (sample_uniforms 1) (particle_with 0.5 0.29))
        = defined3 (vx (u_handPos (sample_uniforms 1)) * 500 + x)
                   (vy (u_handPos (sample_uniforms 1)) * 500 + y)
                   (vz (u_handPos (sample_uniforms 1)) * 500 + z)
      \<and> x\<^sup>2 + y\<^sup>2 + z\<^sup>2 \<le> 60\<^sup>2"
    unfolding Let_def by blast
  from g r1 [of "0.3"] r2 [of "0.3"] boundary above below show ?thesis by blast
qed

section \<open>Properties of the colour pass\<close>

lemma updateInterval_pos: "0 < updateInterval count"
  by (simp add: updateInterval_def)

lemma color_loop_step:
  "i < count \<Longrightarrow>
   color_loop setHSL rnd hueBase hueRange count i (colors, k) =
     color_loop setHSL rnd hueBase hueRange count (i + updateInterval count)
       (colors[i * 3 := channel 0 (setHSL (hueBase + (rnd k - 0.5) * hueRange) 1 0.5),
               i * 3 + 1 := channel 1 (setHSL (hueBase + (rnd k - 0.5) * hueRange) 1 0.5),
               i * 3 + 2 := channel 2 (setHSL (hueBase + (rnd k - 0.5) * hueRange) 1 0.5)],
        Suc k)"
  by (subst color_loop.simps) (simp add: Let_def channel_def split: prod.splits)

lemma color_loop_stop:
  "\<not> i < count \<Longrightarrow> color_loop setHSL rnd hueBase hueRange count i ck = ck"
  by (cases ck) (simp add: color_loop.simps)

lemma triple_update_nth:
  assumes "j < length colors"
  shows "(colors[i * 3 := channel 0 c, i * 3 + 1 := channel 1 c, i * 3 + 2 := channel 2 c]) ! j =
           (if j div 3 = i then channel (j mod 3) c else colors ! j)"
proof -
  have upd: "(colors[i * 3 := channel 0 c, i * 3 + 1 := channel 1 c, i * 3 + 2 := channel 2 c]) ! j =
      (if j = i * 3 + 2 then channel 2 c else if j = i * 3 + 1 then channel 1 c
       else if j = i * 3 then channel 0 c else colors ! j)"
    using assms by (simp add: nth_list_update)
  have "j = i * 3 \<or> j = i * 3 + 1 \<or> j = i * 3 + 2 \<or> j div 3 \<noteq> i"
    by presburger
  then consider (r0) "j = i * 3" | (r1) "j = i * 3 + 1" | (r2) "j = i * 3 + 2"
    | (other) "j div 3 \<noteq> i"
    by blast
  then show ?thesis
  proof cases
    case r0
    then have "j div 3 = i" "j mod 3 = 0" by presburger+
    with r0 show ?thesis unfolding upd by simp
  next
    case r1
    then have "j div 3 = i" "j mod 3 = 1" by presburger+
    with r1 show ?thesis unfolding upd by simp
  next
    case r2
    then have "j div 3 = i" "j mod 3 = 2" by presburger+
    with r2 show ?thesis unfolding upd by simp
  next
    case other
    then have "j \<noteq> i * 3" "j \<noteq> i * 3 + 1" "j \<noteq> i * 3 + 2" by auto
    with other show ?thesis unfolding upd by simp
  qed
qed

lemma color_loop_length:
  "length (fst (color_loop setHSL rnd hueBase hueRange count i (colors, k))) = length colors"
proof (induction "count - i" arbitrary: i colors k rule: less_induct)
  case less
  show ?case
  proof (cases "i < count")
    case True
    then have "count - (i + updateInterval count) < count - i"
      using updateInterval_pos [of count] by simp
    from less [OF this] True show ?thesis
      by (simp add: color_loop_step)
  next
    case False
    then show ?thesis by (simp add: color_loop_stop)
  qed
qed

lemma color_loop_entry:
  assumes "j < length colors"
  shows "fst (color_loop setHSL rnd hueBase hueRange count i (colors, k)) ! j =
     (if i \<le> j div 3 \<and> j div 3 < count \<and> (j div 3 - i) mod updateInterval count = 0
      then channel (j mod 3)
             (setHSL (hueBase + (rnd (k + (j div 3 - i) div updateInterval count) - 0.5) * hueRange)
                1 0.5)
      else colors ! j)"
  using assms
proof (induction "count - i" arbitrary: i colors k rule: less_induct)
  case less
  define s where "s = updateInterval count"
  define p where "p = j div 3"
  define roll where "roll = (\<lambda>n. setHSL (hueBase + (rnd n - 0.5) * hueRange) 1 0.5)"
  define colors1 where
    "colors1 = colors[i * 3 := channel 0 (roll k), i * 3 + 1 := channel 1 (roll k),
                      i * 3 + 2 := channel 2 (roll k)]"
  have spos: "0 < s" unfolding s_def by (rule updateInterval_pos)
  have goal_eq: "?case \<longleftrightarrow>
      fst (color_loop setHSL rnd hueBase hueRange count i (colors, k)) ! j =
        (if i \<le> p \<and> p < count \<and> (p - i) mod s = 0
         then channel (j mod 3) (roll (k + (p - i) div s)) else colors ! j)"
    by (simp only: s_def p_def roll_def)
  show ?case
  proof (cases "i < count")
    case False
    then have "\<not> (i \<le> j div 3 \<and> j div 3 < count \<and> (j div 3 - i) mod updateInterval count = 0)"
      by simp
    with False show ?thesis by (simp add: color_loop_stop)
  next
    case True
    have step: "color_loop setHSL rnd hueBase hueRange count i (colors, k) =
        color_loop setHSL rnd hueBase hueRange count (i + s) (colors1, Suc k)"
      unfolding s_def colors1_def roll_def using True by (rule color_loop_step)
    have dec: "count - (i + s) < count - i" using True spos by simp
    have len: "j < length colors1" using less.prems by (simp add: colors1_def)
    have IH: "fst (color_loop setHSL rnd hueBase hueRange count (i + s) (colors1, Suc k)) ! j =
       (if i + s \<le> p \<and> p < count \<and> (p - (i + s)) mod s = 0
        then channel (j mod 3) (roll (Suc k + (p - (i + s)) div s))
        else colors1 ! j)"
      using less.hyps [OF dec [unfolded s_def] len, of "Suc k"]
      by (simp only: s_def p_def roll_def)
    have old: "colors1 ! j = (if p = i then channel (j mod 3) (roll k) else colors ! j)"
      unfolding colors1_def p_def using less.prems by (rule triple_update_nth)
    have "fst (color_loop setHSL rnd hueBase hueRange count (i + s) (colors1, Suc k)) ! j =
       (if i \<le> p \<and> p < count \<and> (p - i) mod s = 0
        then channel (j mod 3) (roll (k + (p - i) div s)) else colors ! j)"
    proof -
      consider (here) "p = i" | (before) "p < i" | (off) "i < p" "(p - i) mod s \<noteq> 0"
        | (on) "i < p" "(p - i) mod s = 0"
        by linarith
      then show ?thesis
      proof cases
        case here
        then have "\<not> (i + s \<le> p \<and> p < count \<and> (p - (i + s)) mod s = 0)"
          using spos by simp
        then have "fst (color_loop setHSL rnd hueBase hueRange count (i + s) (colors1, Suc k)) ! j
            = colors1 ! j"
          using IH by (simp only: if_False)
        also have "\<dots> = channel (j mod 3) (roll k)" using old here by simp
        finally show ?thesis using here True by simp
      next
        case before
        then have "\<not> (i + s \<le> p \<and> p < count \<and> (p - (i + s)) mod s = 0)"
          by simp
        then have "fst (color_loop setHSL rnd hueBase hueRange count (i + s) (colors1, Suc k)) ! j
            = colors1 ! j"
          using IH by (simp only: if_False)
        also have "\<dots> = colors ! j" using old before by simp
        finally show ?thesis using before by simp
      next
        case off
        have "(p - (i + s)) mod s = (p - i) mod s" if "i + s \<le> p"
        proof -
          from that have "p - i = (p - (i + s)) + s" by simp
          then have "(p - i) mod s = ((p - (i + s)) + s) mod s" by (simp only:)
          then show ?thesis by simp
        qed
        with off(2) have "\<not> (i + s \<le> p \<and> p < count \<and> (p - (i + s)) mod s = 0)"
          by auto
        then have "fst (color_loop setHSL rnd hueBase hueRange count (i + s) (colors1, Suc k)) ! j
            = colors1 ! j"
          using IH by (simp only: if_False)
        also have "\<dots> = colors ! j" using old off(1) by simp
        finally show ?thesis using off by simp
      next
        case on
        from on(2) obtain m where m: "p - i = s * m" by (auto simp: mod_eq_0_iff_dvd)
        with on(1) have "m \<noteq> 0" by (cases m) simp_all
        then obtain m' where m': "m = Suc m'" by (cases m) simp_all
        have ge: "i + s \<le> p" using m m' on(1) by simp
        have diff: "p - (i + s) = s * m'" using m m' by simp
        have d1: "(p - i) div s = Suc m'" using m m' spos by simp
        have d2: "(p - (i + s)) div s = m'" using diff spos by simp
        have m2: "(p - (i + s)) mod s = 0" using diff by simp
        show ?thesis
        proof (cases "p < count")
          case True
          with ge m2 have "i + s \<le> p \<and> p < count \<and> (p - (i + s)) mod s = 0" by simp
          then have "fst (color_loop setHSL rnd hueBase hueRange count (i + s) (colors1, Suc k)) ! j
              = channel (j mod 3) (roll (Suc k + (p - (i + s)) div s))"
            using IH by simp
          then show ?thesis using True on d1 d2 by simp
        next
          case False
          then have "\<not> (i + s \<le> p \<and> p < count \<and> (p - (i + s)) mod s = 0)" by simp
          then have "fst (color_loop setHSL rnd hueBase hueRange count (i + s) (colors1, Suc k)) ! j
              = colors1 ! j"
            using IH by (simp only: if_False)
          also have "\<dots> = colors ! j" using old on(1) by simp
          finally show ?thesis using False by simp
        qed
      qed
    qed
    then show ?thesis
      unfolding goal_eq by (simp only: step)
  qed
qed

lemma ceil_div_step:
  fixes s x :: nat
  assumes "0 < s" and "s \<le> x"
  shows "(x + s - 1) div s = Suc ((x - s + s - 1) div s)"
proof -
  define m where "m = x - s + s - 1"
  have "x + s - 1 = m + s" using assms by (simp add: m_def)
  then have "(x + s - 1) div s = (m + s) div s" by (simp only:)
  also have "\<dots> = Suc (m div s)" using assms(1) by simp
  finally show ?thesis by (simp only: m_def)
qed

lemma color_loop_draws:
  "snd (color_loop setHSL rnd hueBase hueRange count i (colors, k))
     = k + (count - i + updateInterval count - 1) div updateInterval count"
proof (induction "count - i" arbitrary: i colors k rule: less_induct)
  case less
  define s where "s = updateInterval count"
  have spos: "0 < s" unfolding s_def by (rule updateInterval_pos)
  show ?case
  proof (cases "i < count")
    case False
    then have "count - i + s - 1 < s" using spos by simp
    then have "(count - i + s - 1) div s = 0" by simp
    with False show ?thesis by (simp add: color_loop_stop s_def)
  next
    case True
    have dec: "count - (i + s) < count - i" using True spos by simp
    have "(count - i + s - 1) div s = Suc ((count - (i + s) + s - 1) div s)"
    proof (cases "s \<le> count - i")
      case True
      from ceil_div_step [OF spos True] show ?thesis by simp
    next
      case False
      with True spos have "s \<le> count - i + s - 1" "count - i + s - 1 < 2 * s"
        by simp_all
      then have "(count - i + s - 1) div s = 1"
        by (intro div_nat_eqI) simp_all
      moreover from False have "count - (i + s) + s - 1 < s" using spos by simp
      ultimately show ?thesis by simp
    qed
    with less [OF dec [unfolded s_def]] True show ?thesis
      by (simp add: color_loop_step s_def)
  qed
qed

lemma channels_of: "(channel 0 c, channel (Suc 0) c, channel 2 c) = c"
  by (cases c) (simp add: channel_def)

lemma particle_color_after_loop:
  assumes "p * 3 + 2 < length colors"
  shows "particle_color (fst (color_loop setHSL rnd hueBase hueRange count 0 (colors, k))) p =
     (if p < count \<and> p mod updateInterval count = 0
      then setHSL (hueBase + (rnd (k + p div updateInterval count) - 0.5) * hueRange) 1 0.5
      else particle_color colors p)"
proof -
  have d: "(p * 3) div 3 = p" "(p * 3 + 1) div 3 = p" "(p * 3 + 2) div 3 = p"
    and m: "(p * 3) mod 3 = 0" "(p * 3 + 1) mod 3 = 1" "(p * 3 + 2) mod 3 = 2"
    by presburger+
  from assms have l: "p * 3 < length colors" "p * 3 + 1 < length colors" by simp_all
  show ?thesis
    unfolding particle_color_def
    by (simp only: color_loop_entry [OF l(1)] color_loop_entry [OF l(2)]
          color_loop_entry [OF assms] d m)
       (simp add: channels_of)
qed

lemma particle_color_after_pass:
  assumes "length colors = 3 * particleCount st" and "p < particleCount st"
  shows "particle_color (fst (updateParticleColors setHSL rnd st (colors, k))) p =
     (if p mod updateInterval (particleCount st) = 0
      then setHSL (fst (hue_params (currentGesture st))
                   + (rnd (k + p div updateInterval (particleCount st)) - 0.5)
                     * snd (hue_params (currentGesture st))) 1 0.5
      else particle_color colors p)"
proof -
  from assms have "p * 3 + 2 < length colors" by simp
  from particle_color_after_loop [OF this] assms(2) show ?thesis
    by (simp add: updateParticleColors_def split_beta)
qed

lemma length_after_pass:
  "length (fst (updateParticleColors setHSL rnd st (colors, k))) = length colors"
  by (simp add: updateParticleColors_def split_beta color_loop_length)

lemma untouched_over_frames:
  assumes "length colors = 3 * N" and "p < N" and "p mod updateInterval N \<noteq> 0"
    and "\<forall>st \<in> set frames. particleCount st = N"
  shows "particle_color (fst (color_frames setHSL rnd frames (colors, k))) p
           = particle_color colors p"
  using assms
proof (induction frames arbitrary: colors k)
  case Nil
  then show ?case by simp
next
  case (Cons st frames)
  obtain colors' k' where pass: "updateParticleColors setHSL rnd st (colors, k) = (colors', k')"
    by (cases "updateParticleColors setHSL rnd st (colors, k)")
  from Cons.prems have N: "particleCount st = N" by simp
  have len: "length colors' = 3 * N"
    using length_after_pass [of setHSL rnd st colors k] pass Cons.prems(1) by simp
  have same: "particle_color colors' p = particle_color colors p"
    using particle_color_after_pass [of colors st p setHSL rnd k] pass Cons.prems(1,2,3) N
    by simp
  from Cons.prems have "\<forall>s \<in> set frames. particleCount s = N" by simp
  from Cons.IH [OF len Cons.prems(2,3) this, of k'] same pass
  show ?case by simp
qed

lemma hue_in_range:
  fixes x hueBase hueRange :: real
  assumes "0 \<le> x" and "x < 1" and "0 \<le> hueRange"
  shows "hueBase - hueRange / 2 \<le> hueBase + (x - 0.5) * hueRange
       \<and> hueBase + (x - 0.5) * hueRange \<le> hueBase + hueRange / 2"
proof -
  have "- (1/2) * hueRange \<le> (x - 0.5) * hueRange"
    using assms by (intro mult_right_mono) simp_all
  moreover have "(x - 0.5) * hueRange \<le> (1/2) * hueRange"
    using assms by (intro mult_right_mono) simp_all
  ultimately show ?thesis by simp
qed

lemma hue_params_table:
  "hue_params GESTURES_NONE = (0.5, 0.1) \<and> hue_params GESTURES_FIST = (0.08, 0.1)
   \<and> hue_params GESTURES_OPEN = (0.4, 0.15) \<and> hue_params GESTURES_PEACE = (0.6, 0.2)
   \<and> hue_params GESTURES_METAL = (0.95, 0.1)"
  by (simp add: hue_params_def GESTURES_NONE_def GESTURES_FIST_def GESTURES_OPEN_def
        GESTURES_PEACE_def GESTURES_METAL_def)

lemma hue_range_nonneg: "0 \<le> snd (hue_params g)"
  by (simp add: hue_params_def)

text \<open>
  Claim C5, amended. A colour pass over \<open>N\<close> particles touches exactly the particles whose
  index is a multiple of the stride \<open>max 1 (N div 300)\<close>, the same ones in every frame
  (334 of 2000, 308 of 4000). Each of them gets \<open>setHSL hue 1 0.5\<close> with
  \<open>hue = hueBase + (random - 0.5) * hueRange\<close>, which lies between \<open>hueBase - hueRange / 2\<close>
  and \<open>hueBase + hueRange / 2\<close>; the pairs (hueBase, hueRange) are (0.5, 0.1) for NONE,
  (0.08, 0.1) for FIST, (0.4, 0.15) for OPEN, (0.6, 0.2) for PEACE and (0.95, 0.1) for METAL.
  Every other particle keeps its colour, in this frame and in all later frames.
\<close>

theorem color_pass_fixed_subset:
  assumes len: "length colors = 3 * particleCount st" and p: "p < particleCount st"
    and rnd: "\<forall>n. 0 \<le> rnd n \<and> rnd n < 1"
    and frames: "\<forall>s \<in> set frames. particleCount s = particleCount st"
  shows "let N = particleCount st;
             stride = max 1 (N div 300);
             hueBase = fst (hue_params (currentGesture st));
             hueRange = snd (hue_params (currentGesture st));
             after = updateParticleColors setHSL rnd st (colors, k);
             hue = hueBase + (rnd (k + p div stride) - 0.5) * hueRange
         in (p mod stride = 0 \<longrightarrow>
               particle_color (fst after) p = setHSL hue 1 0.5
               \<and> hueBase - hueRange / 2 \<le> hue \<and> hue \<le> hueBase + hueRange / 2)
          \<and> (p mod stride \<noteq> 0 \<longrightarrow>
               particle_color (fst after) p = particle_color colors p
               \<and> particle_color (fst (color_frames setHSL rnd frames (colors, k))) p
                   = particle_color colors p)
          \<and> snd after = k + (N + stride - 1) div stride
          \<and> (N = 2000 \<longrightarrow> snd after = k + 334)
          \<and> (N = 4000 \<longrightarrow> snd after = k + 308)
          \<and> hue_params GESTURES_NONE = (0.5, 0.1) \<and> hue_params GESTURES_FIST = (0.08, 0.1)
          \<and> hue_params GESTURES_OPEN = (0.4, 0.15) \<and> hue_params GESTURES_PEACE = (0.6, 0.2)
          \<and> hue_params GESTURES_METAL = (0.95, 0.1)"
proof -
  let ?N = "particleCount st"
  let ?s = "updateInterval ?N"
  let ?hb = "fst (hue_params (currentGesture st))"
  let ?hr = "snd (hue_params (currentGesture st))"
  let ?after = "updateParticleColors setHSL rnd st (colors, k)"
  let ?hue = "?hb + (rnd (k + p div ?s) - 0.5) * ?hr"
  have stride: "max 1 (?N div 300) = ?s" by (simp add: updateInterval_def)
  have pass: "particle_color (fst ?after) p =
      (if p mod ?s = 0 then setHSL ?hue 1 0.5 else particle_color colors p)"
    using len p by (rule particle_color_after_pass)
  have range: "?hb - ?hr / 2 \<le> ?hue \<and> ?hue \<le> ?hb + ?hr / 2"
    using rnd hue_range_nonneg [of "currentGesture st"] by (intro hue_in_range) simp_all
  have keep: "particle_color (fst (color_frames setHSL rnd frames (colors, k))) p
      = particle_color colors p" if "p mod ?s \<noteq> 0"
    using len p that frames by (rule untouched_over_frames)
  have draws: "snd ?after = k + (?N + ?s - 1) div ?s"
    by (simp add: updateParticleColors_def split_beta color_loop_draws)
  have d2000: "snd ?after = k + 334" if "?N = 2000"
    using draws that by (simp add: updateInterval_def)
  have d4000: "snd ?after = k + 308" if "?N = 4000"
    using draws that by (simp add: updateInterval_def)
  show ?thesis
    unfolding Let_def stride
    using pass range keep draws d2000 d4000 hue_params_table by simp
qed

theorem color_pass_fixed_subset_witness:
  "length (cyan_buffer 2000) = 3 * particleCount metal_state
   \<and> 6 < particleCount metal_state \<and> 1 < particleCount metal_state
   \<and> 0 \<le> sample_random 0 \<and> sample_random 0 < 1
   \<and> particle_color (fst (updateParticleColors sample_setHSL sample_random metal_state
                             (cyan_buffer 2000, 0))) 6 = (0.95, 1, 0.5)
   \<and> particle_color (fst (updateParticleColors sample_setHSL sample_random metal_state
                             (cyan_buffer 2000, 0))) 1 = (0.5, 1, 0.5)
   \<and> snd (updateParticleColors sample_setHSL sample_random metal_state (cyan_buffer 2000, 0)) = 334"
  using color_pass_fixed_subset [of "cyan_buffer 2000" metal_state 6 sample_random "[metal_state]" sample_setHSL 0]
        color_pass_fixed_subset [of "cyan_buffer 2000" metal_state 1 sample_random "[metal_state]" sample_setHSL 0]
  by (simp add: Let_def cyan_buffer_def metal_state_def initial_state_def sample_random_def
        sample_setHSL_def hue_params_def particle_color_def)

text \<open>
  Claim C5 as stated fails where it has all particles converge to the palette of the new
  gesture: after 1000 frames under METAL, particle 1 of 2000 still has the colour it
  started with, whose hue 0.5 is below the hues 0.9 to 1 of METAL.
\<close>

theorem color_convergence_counterexample:
  "particle_color
     (fst (color_frames sample_setHSL sample_random (replicate 1000 metal_state)
             (cyan_buffer 2000, 0))) 1
   = particle_color (cyan_buffer 2000) 1
   \<and> fst (particle_color
           (fst (color_frames sample_setHSL sample_random (replicate 1000 metal_state)
                   (cyan_buffer 2000, 0))) 1)
       < fst (hue_params (currentGesture metal_state))
         - snd (hue_params (currentGesture metal_state)) / 2"
proof -
  have N: "particleCount metal_state = 2000"
    by (simp add: metal_state_def initial_state_def)
  have len: "length (cyan_buffer 2000) = 3 * 2000"
    by (simp add: cyan_buffer_def)
  have stride: "(1::nat) mod updateInterval 2000 \<noteq> 0"
    by (simp add: updateInterval_def)
  have frames: "\<forall>st \<in> set (replicate 1000 metal_state). particleCount st = 2000"
    using N by simp
  have start: "particle_color (cyan_buffer 2000) 1 = (0.5, 1, 0.5)"
    by (simp add: particle_color_def cyan_buffer_def)
  have keep: "particle_color
     (fst (color_frames sample_setHSL sample_random (replicate 1000 metal_state)
             (cyan_buffer 2000, 0))) 1 = particle_color (cyan_buffer 2000) 1"
    using untouched_over_frames [OF len _ stride frames, of sample_setHSL sample_random 0]
    by simp
  have "fst (hue_params (currentGesture metal_state))
         - snd (hue_params (currentGesture metal_state)) / 2 = 0.9"
    by (simp add: metal_state_def hue_params_def)
  with keep start show ?thesis by simp
qed

end
